theory Spec2Isabelle
  imports Complex_Main
begin

section \<open>Python values used by the pipelines\<close>

text \<open>
  The scripts are Python. Their unbounded integers are modelled as \<^typ>\<open>int\<close>, their
  dictionaries as maps, and every exception they can raise as a value of \<open>py_error\<close>; a
  computation that may raise returns \<open>py_error + 'a\<close>.
  A string is a \<^typ>\<open>string\<close>, and a character of it is the Unicode code point of the
  same number, so the strings of the model are the Python strings whose code points are
  below 256. The library functions the scripts call (\<open>str.strip\<close>, \<open>str.title\<close>, \<open>int\<close>,
  \<open>float\<close>, \<open>round\<close>, \<open>datetime.strptime\<close>) are modelled on all of these strings. The
  result of \<open>str.title\<close> can have code points from 256 on, so it is a list of code
  points; \<open>codes\<close> gives the code points of a string.
  A cell of a row read by \<open>csv.DictReader\<close> is a string, or \<open>None\<close> when the line of the
  file is shorter than the header.
\<close>

datatype py_error =
  ValueError | KeyError | OverflowError | AttributeError | TypeError
  | NotFound | Conflict
  | ConnectionFailed | ReadFailed | FileOpenFailed
  | LoadJobFailed | QueryFailed

datatype cell = Str string | PyNone

type_synonym raw_record = "string \<rightharpoonup> cell"

definition codes :: "string \<Rightarrow> nat list" where
  "codes s = map of_char s"

definition dict_get :: "('k \<rightharpoonup> 'v) \<Rightarrow> 'k \<Rightarrow> 'v \<Rightarrow> 'v" where
  "dict_get d k dflt = (case d k of None \<Rightarrow> dflt | Some v \<Rightarrow> v)"

subsection \<open>Strings: \<open>strip\<close> and \<open>title\<close>\<close>

definition is_space :: "char \<Rightarrow> bool" where
  \<comment> \<open>the white space of \<open>str.strip()\<close> below 256: the codes 9 to 13 and 28 to 32,
      U+0085 and U+00A0\<close>
  "is_space c =
     (let n = (of_char c :: nat)
      in (9 \<le> n \<and> n \<le> 13) \<or> (28 \<le> n \<and> n \<le> 32) \<or> n = 133 \<or> n = 160)"

definition py_strip :: "string \<Rightarrow> string" where
  "py_strip s = rev (dropWhile is_space (rev (dropWhile is_space s)))"

definition is_cased :: "nat \<Rightarrow> bool" where
  \<comment> \<open>the cased code points below 256: the letters of ASCII, U+00AA, U+00B5, U+00BA,
      and U+00C0 to U+00FF without the signs U+00D7 and U+00F7\<close>
  "is_cased n =
     ((65 \<le> n \<and> n \<le> 90) \<or> (97 \<le> n \<and> n \<le> 122) \<or> n = 170 \<or> n = 181 \<or> n = 186
      \<or> (192 \<le> n \<and> n \<le> 214) \<or> (216 \<le> n \<and> n \<le> 246) \<or> (248 \<le> n \<and> n \<le> 255))"

definition title_char :: "nat \<Rightarrow> nat list" where
  \<comment> \<open>the title case of a code point below 256: U+00DF gives \<open>Ss\<close>, U+00B5 gives U+039C
      and U+00FF gives U+0178\<close>
  "title_char n =
     (if (97 \<le> n \<and> n \<le> 122) \<or> (224 \<le> n \<and> n \<le> 254 \<and> n \<noteq> 247) then [n - 32]
      else if n = 223 then [83, 115]
      else if n = 181 then [924]
      else if n = 255 then [376]
      else [n])"

definition lower_char :: "nat \<Rightarrow> nat list" where
  "lower_char n =
     (if (65 \<le> n \<and> n \<le> 90) \<or> (192 \<le> n \<and> n \<le> 222 \<and> n \<noteq> 215) then [n + 32] else [n])"

fun title_from :: "bool \<Rightarrow> nat list \<Rightarrow> nat list" where
  \<comment> \<open>\<open>str.title()\<close>: a character after an uncased one is title-cased, a character
      after a cased one lower-cased\<close>
  "title_from previous_is_cased [] = []"
| "title_from previous_is_cased (n # ns) =
     (if previous_is_cased then lower_char n else title_char n) @ title_from (is_cased n) ns"

definition py_title :: "string \<Rightarrow> nat list" where
  "py_title s = title_from False (codes s)"

subsection \<open>Decimal digits and \<open>int(str)\<close>\<close>

definition digit_val :: "char \<Rightarrow> nat option" where
  "digit_val c = map_of (zip ''0123456789'' [0, 1, 2, 3, 4, 5, 6, 7, 8, 9]) c"

definition is_digit :: "char \<Rightarrow> bool" where
  "is_digit c = (digit_val c \<noteq> None)"

fun digits_us :: "string \<Rightarrow> nat list option" where
  \<comment> \<open>a digit part: digits, with single underscores allowed between two digits\<close>
  "digits_us [] = None"
| "digits_us [c] = map_option (\<lambda>d. [d]) (digit_val c)"
| "digits_us (c # u # cs) =
     (case digit_val c of
        None \<Rightarrow> None
      | Some d \<Rightarrow>
          if u = CHR ''_'' then map_option ((#) d) (digits_us cs)
          else map_option ((#) d) (digits_us (u # cs)))"

definition digits_value :: "nat list \<Rightarrow> nat" where
  "digits_value ds = foldl (\<lambda>a d. 10 * a + d) 0 ds"

definition is_cspace :: "char \<Rightarrow> bool" where
  \<comment> \<open>the white space that \<open>int()\<close> and \<open>float()\<close> skip at both ends: the codes 9 to
      13 and 32, and U+0085 and U+00A0, which they first turn into a space\<close>
  "is_cspace c =
     (let n = (of_char c :: nat) in (9 \<le> n \<and> n \<le> 13) \<or> n = 32 \<or> n = 133 \<or> n = 160)"

definition strip_c :: "string \<Rightarrow> string" where
  "strip_c s = rev (dropWhile is_cspace (rev (dropWhile is_cspace s)))"

fun split_sign :: "string \<Rightarrow> int \<times> string" where
  "split_sign [] = (1, [])"
| "split_sign (c # cs) =
     (if c = CHR ''+'' then (1, cs) else if c = CHR ''-'' then (- 1, cs) else (1, c # cs))"

definition max_str_digits :: nat where
  "max_str_digits = 4300"

definition py_int :: "string \<Rightarrow> py_error + int" where
  \<comment> \<open>\<open>int(s)\<close> in base 10; a malformed literal, and one of more than 4300 digits,
      raise \<open>ValueError\<close>\<close>
  "py_int s =
     (case split_sign (strip_c s) of (sg, body) \<Rightarrow>
        (case digits_us body of
           None \<Rightarrow> Inl ValueError
         | Some ds \<Rightarrow>
             if max_str_digits < length ds then Inl ValueError
             else Inr (sg * int (digits_value ds))))"

subsection \<open>Floats: IEEE 754 binary64, round to nearest, ties to even\<close>

text \<open>
  A Python \<open>float\<close> is a binary64 number. A finite one is \<open>Fin m e\<close>, the number
  \<open>m * 2^e\<close>, kept in the form of its encoding: \<open>2^52 \<le> |m| < 2^53\<close> and
  \<open>-1074 \<le> e \<le> 971\<close> for a normal number, \<open>|m| < 2^52\<close> and \<open>e = -1074\<close> for a subnormal
  one and for zero. The two zeros are one value (the scripts never divide and never read
  a sign, so the sign of a zero is not observable in them). \<open>fl_frac a b\<close> rounds the
  fraction \<open>a / b\<close> (with \<open>0 < b\<close>) to the nearest binary64 number, ties to even, and
  overflows to an infinity from \<open>2^1024 - 2^970\<close> on, as IEEE 754 prescribes.
\<close>

datatype pyfloat = Fin int int | PInf | NInf | NaN

fun bit_length :: "nat \<Rightarrow> nat" where
  "bit_length n = (if n = 0 then 0 else 1 + bit_length (n div 2))"

declare bit_length.simps [simp del]

definition round_half_even_frac :: "int \<Rightarrow> int \<Rightarrow> int" where
  \<comment> \<open>the integer nearest to \<open>num / den\<close> (with \<open>0 < den\<close>), ties to the even one\<close>
  "round_half_even_frac num den =
     (let q = num div den; r = num mod den
      in if 2 * r < den then q else if den < 2 * r then q + 1
         else if even q then q else q + 1)"

definition overflow_threshold :: int where
  \<comment> \<open>the least magnitude that rounds to an infinity\<close>
  "overflow_threshold = 2 ^ 1024 - 2 ^ 970"

definition round_to_binary64 :: "int \<Rightarrow> int \<Rightarrow> int \<times> int" where
  \<comment> \<open>mantissa and exponent of the binary64 number nearest to \<open>n / b\<close>, for \<open>0 < n\<close>
      and \<open>0 < b\<close> below the overflow threshold; \<open>k\<close> is \<open>\<lfloor>log\<^sub>2 (n / b)\<rfloor>\<close>\<close>
  "round_to_binary64 n b =
     (let d = int (bit_length (nat n)) - int (bit_length (nat b));
          k = (if b * 2 ^ nat d \<le> n * 2 ^ nat (- d) then d else d - 1);
          e = max (k - 52) (- 1074);
          m = round_half_even_frac (n * 2 ^ nat (- e)) (b * 2 ^ nat e)
      in if m = 2 ^ 53 then (2 ^ 52, e + 1) else (m, e))"

definition fl_pos :: "int \<Rightarrow> int \<Rightarrow> pyfloat" where
  "fl_pos n b =
     (if overflow_threshold * b \<le> n then PInf
      else (case round_to_binary64 n b of (m, e) \<Rightarrow> Fin m e))"

fun fneg :: "pyfloat \<Rightarrow> pyfloat" where
  "fneg (Fin m e) = Fin (- m) e"
| "fneg PInf = NInf"
| "fneg NInf = PInf"
| "fneg NaN = NaN"

definition fzero :: pyfloat where
  "fzero = Fin 0 (- 1074)"

definition fl_frac :: "int \<Rightarrow> int \<Rightarrow> pyfloat" where
  "fl_frac a b =
     (if a = 0 then fzero else if 0 < a then fl_pos a b else fneg (fl_pos (- a) b))"

definition fl_dyadic :: "int \<Rightarrow> int \<Rightarrow> pyfloat" where
  \<comment> \<open>rounds \<open>m * 2^e\<close>\<close>
  "fl_dyadic m e = fl_frac (m * 2 ^ nat e) (2 ^ nat (- e))"

definition float_of_int :: "int \<Rightarrow> py_error + pyfloat" where
  \<comment> \<open>the conversion of the \<open>int\<close> operand of a mixed \<open>int * float\<close> operation; it
      raises \<open>OverflowError: int too large to convert to float\<close>\<close>
  "float_of_int n =
     (case fl_frac n 1 of
        Fin m e \<Rightarrow> Inr (Fin m e)
      | PInf \<Rightarrow> Inl OverflowError
      | NInf \<Rightarrow> Inl OverflowError
      | NaN \<Rightarrow> Inl OverflowError)"

fun fsign :: "pyfloat \<Rightarrow> int" where
  "fsign (Fin m e) = sgn m"
| "fsign PInf = 1"
| "fsign NInf = - 1"
| "fsign NaN = 0"

fun fmul :: "pyfloat \<Rightarrow> pyfloat \<Rightarrow> pyfloat" where
  "fmul (Fin m1 e1) (Fin m2 e2) = fl_dyadic (m1 * m2) (e1 + e2)"
| "fmul NaN y = NaN"
| "fmul x NaN = NaN"
| "fmul x y =
     (let s = fsign x * fsign y in if s = 0 then NaN else if 0 < s then PInf else NInf)"

fun fsub :: "pyfloat \<Rightarrow> pyfloat \<Rightarrow> pyfloat" where
  "fsub (Fin m1 e1) (Fin m2 e2) =
     (let e = min e1 e2 in fl_dyadic (m1 * 2 ^ nat (e1 - e) - m2 * 2 ^ nat (e2 - e)) e)"
| "fsub NaN y = NaN"
| "fsub x NaN = NaN"
| "fsub PInf PInf = NaN"
| "fsub NInf NInf = NaN"
| "fsub PInf y = PInf"
| "fsub NInf y = NInf"
| "fsub x PInf = NInf"
| "fsub x NInf = PInf"

fun flt_gt_int :: "pyfloat \<Rightarrow> int \<Rightarrow> bool" where
  \<comment> \<open>\<open>x > n\<close> for a float \<open>x\<close> and an int \<open>n\<close>: exact, and false on NaN\<close>
  "flt_gt_int (Fin m e) n = (n * 2 ^ nat (- e) < m * 2 ^ nat e)"
| "flt_gt_int PInf n = True"
| "flt_gt_int NInf n = False"
| "flt_gt_int NaN n = False"

fun flt_le_int :: "pyfloat \<Rightarrow> int \<Rightarrow> bool" where
  "flt_le_int (Fin m e) n = (m * 2 ^ nat e \<le> n * 2 ^ nat (- e))"
| "flt_le_int PInf n = False"
| "flt_le_int NInf n = True"
| "flt_le_int NaN n = False"

fun flt_ge_int :: "pyfloat \<Rightarrow> int \<Rightarrow> bool" where
  "flt_ge_int (Fin m e) n = (n * 2 ^ nat (- e) \<le> m * 2 ^ nat e)"
| "flt_ge_int PInf n = True"
| "flt_ge_int NInf n = False"
| "flt_ge_int NaN n = False"

fun round2 :: "pyfloat \<Rightarrow> pyfloat" where
  \<comment> \<open>\<open>round(x, 2)\<close>: the exact value of \<open>x\<close> rounded half-even to two decimals, then
      the float nearest to that decimal; infinities and NaN round to themselves\<close>
  "round2 (Fin m e) = fl_frac (round_half_even_frac (100 * m * 2 ^ nat e) (2 ^ nat (- e))) 100"
| "round2 x = x"

subsection \<open>\<open>float(str)\<close>\<close>

definition is_exp_mark :: "char \<Rightarrow> bool" where
  "is_exp_mark c = (c = CHR ''e'' \<or> c = CHR ''E'')"

definition parse_exponent :: "string \<Rightarrow> int option" where
  \<comment> \<open>what follows the mantissa: nothing, or \<open>e\<close>, an optional sign and a digit part\<close>
  "parse_exponent ex =
     (if ex = [] then Some 0
      else (case split_sign (tl ex) of (sg, ds) \<Rightarrow>
              map_option (\<lambda>d. sg * int (digits_value d)) (digits_us ds)))"

definition parse_mantissa :: "string \<Rightarrow> (nat list \<times> nat list) option" where
  \<comment> \<open>\<open>[digitpart] "." digitpart | digitpart ["."]\<close>: the digits before and after the point\<close>
  "parse_mantissa m =
     (let ip = takeWhile (\<lambda>c. c \<noteq> CHR ''.'') m; rest = dropWhile (\<lambda>c. c \<noteq> CHR ''.'') m
      in if rest = [] then map_option (\<lambda>i. (i, [])) (digits_us ip)
         else if ip = [] then map_option (\<lambda>f. ([], f)) (digits_us (tl rest))
         else if tl rest = [] then map_option (\<lambda>i. (i, [])) (digits_us ip)
         else (case digits_us ip of
                 None \<Rightarrow> None
               | Some i \<Rightarrow> map_option (\<lambda>f. (i, f)) (digits_us (tl rest))))"

definition parse_decimal :: "string \<Rightarrow> (int \<times> int) option" where
  \<comment> \<open>the exact value of a decimal literal, as digits and a power of ten\<close>
  "parse_decimal body =
     (case parse_mantissa (takeWhile (\<lambda>c. \<not> is_exp_mark c) body) of
        None \<Rightarrow> None
      | Some (i, f) \<Rightarrow>
          (case parse_exponent (dropWhile (\<lambda>c. \<not> is_exp_mark c) body) of
             None \<Rightarrow> None
           | Some e \<Rightarrow> Some (int (digits_value (i @ f)), e - int (length f))))"

definition ascii_lower :: "char \<Rightarrow> char" where
  \<comment> \<open>\<open>float()\<close> compares with \<open>inf\<close>, \<open>infinity\<close> and \<open>nan\<close> without regard to the case
      of the ASCII letters\<close>
  "ascii_lower c =
     (case map_of (zip ''ABCDEFGHIJKLMNOPQRSTUVWXYZ'' ''abcdefghijklmnopqrstuvwxyz'') c of
        None \<Rightarrow> c
      | Some l \<Rightarrow> l)"

definition py_float :: "string \<Rightarrow> py_error + pyfloat" where
  \<comment> \<open>\<open>float(s)\<close>: \<open>inf\<close>, \<open>infinity\<close> and \<open>nan\<close> in any case, or a decimal literal,
      correctly rounded; a malformed literal raises \<open>ValueError\<close>\<close>
  "py_float s =
     (case split_sign (strip_c s) of (sg, body) \<Rightarrow>
        (let low = map ascii_lower body
         in if low = ''inf'' \<or> low = ''infinity'' then Inr (if sg = 1 then PInf else NInf)
            else if low = ''nan'' then Inr NaN
            else (case parse_decimal body of
                    None \<Rightarrow> Inl ValueError
                  | Some (ds, p) \<Rightarrow> Inr (fl_frac (sg * ds * 10 ^ nat p) (10 ^ nat (- p))))))"

subsection \<open>\<open>datetime.strptime(s, "%Y-%m-%d").date()\<close> and \<open>isoformat\<close>\<close>

text \<open>
  \<open>strptime\<close> matches the string against the regular expression
  \<^verbatim>\<open>(\d\d\d\d)-(1[0-2]|0[1-9]|[1-9])-(3[0-1]|[1-2]\d|0[1-9]|[1-9]| [1-9])\<close>,
  takes the first match in the order of the alternatives, raises \<open>ValueError\<close> when there
  is none or when it leaves part of the string unread, and then builds the date, which
  raises \<open>ValueError\<close> for year 0 and for a day the month does not have.
\<close>

definition dv :: "char \<Rightarrow> nat" where
  "dv c = (case digit_val c of None \<Rightarrow> 0 | Some d \<Rightarrow> d)"

fun month_alts :: "string \<Rightarrow> (nat \<times> string) list" where
  "month_alts (a # b # rest) =
     (if a = CHR ''1'' \<and> b \<in> set ''012'' then [(10 + dv b, rest)] else [])
     @ (if a = CHR ''0'' \<and> b \<in> set ''123456789'' then [(dv b, rest)] else [])
     @ (if a \<in> set ''123456789'' then [(dv a, b # rest)] else [])"
| "month_alts [a] = (if a \<in> set ''123456789'' then [(dv a, [])] else [])"
| "month_alts [] = []"

fun day_alts :: "string \<Rightarrow> (nat \<times> string) list" where
  "day_alts (a # b # rest) =
     (if a = CHR ''3'' \<and> b \<in> set ''01'' then [(30 + dv b, rest)] else [])
     @ (if a \<in> set ''12'' \<and> is_digit b then [(10 * dv a + dv b, rest)] else [])
     @ (if a = CHR ''0'' \<and> b \<in> set ''123456789'' then [(dv b, rest)] else [])
     @ (if a \<in> set ''123456789'' then [(dv a, b # rest)] else [])
     @ (if a = CHR '' '' \<and> b \<in> set ''123456789'' then [(dv b, rest)] else [])"
| "day_alts [a] = (if a \<in> set ''123456789'' then [(dv a, [])] else [])"
| "day_alts [] = []"

definition after_dash :: "string \<Rightarrow> string option" where
  "after_dash s = (case s of [] \<Rightarrow> None | c # cs \<Rightarrow> if c = CHR ''-'' then Some cs else None)"

definition month_day_matches :: "string \<Rightarrow> (nat \<times> nat \<times> string) list" where
  \<comment> \<open>all ways to match \<open>-month-day\<close> at the start of the string, in the order in which
      the backtracking matcher tries them\<close>
  "month_day_matches s =
     (case after_dash s of
        None \<Rightarrow> []
      | Some s1 \<Rightarrow>
          concat (map (\<lambda>(m, s2).
                    case after_dash s2 of
                      None \<Rightarrow> []
                    | Some s3 \<Rightarrow> map (\<lambda>(d, s4). (m, d, s4)) (day_alts s3))
                  (month_alts s1)))"

definition is_leap :: "nat \<Rightarrow> bool" where
  "is_leap y = (y mod 4 = 0 \<and> (y mod 100 \<noteq> 0 \<or> y mod 400 = 0))"

definition days_in_month :: "nat \<Rightarrow> nat \<Rightarrow> nat" where
  "days_in_month y m =
     (if m = 2 then (if is_leap y then 29 else 28)
      else if m = 4 \<or> m = 6 \<or> m = 9 \<or> m = 11 then 30 else 31)"

type_synonym date = "nat \<times> nat \<times> nat"

fun strptime_ymd :: "string \<Rightarrow> py_error + date" where
  "strptime_ymd (y1 # y2 # y3 # y4 # rest) =
     (if is_digit y1 \<and> is_digit y2 \<and> is_digit y3 \<and> is_digit y4 then
        (case month_day_matches rest of
           [] \<Rightarrow> Inl ValueError
         | (m, d, unread) # _ \<Rightarrow>
             (let y = 1000 * dv y1 + 100 * dv y2 + 10 * dv y3 + dv y4
              in if unread \<noteq> [] then Inl ValueError
                 else if y < 1 \<or> days_in_month y m < d then Inl ValueError
                 else Inr (y, m, d)))
      else Inl ValueError)"
| "strptime_ymd s = Inl ValueError"

definition digit_char :: "nat \<Rightarrow> char" where
  "digit_char n = ''0123456789'' ! (n mod 10)"

definition isoformat :: "date \<Rightarrow> string" where
  "isoformat dt =
     (case dt of (y, m, d) \<Rightarrow>
        [digit_char (y div 1000), digit_char (y div 100), digit_char (y div 10), digit_char y]
        @ ''-'' @ [digit_char (m div 10), digit_char m]
        @ ''-'' @ [digit_char (d div 10), digit_char d])"

section \<open>The CSV pipeline: \<open>transform_sales_data\<close>\<close>

text \<open>
  An Enriched Record is the dictionary that \<open>transform_sales_data\<close> appends: ten fixed
  keys, so a record. The float literals \<open>0.1\<close> and \<open>0.0\<close> of the source are \<open>float_0_1\<close>
  and \<open>fzero\<close>; the int \<open>1\<close> of \<open>1 - discount\<close> is converted to the float \<open>float_1\<close>.
  The \<open>print\<close> calls are not modelled.
\<close>

record enriched =
  order_id :: string
  customer :: "nat list"
  product :: string
  quantity :: int
  price :: pyfloat
  order_date :: string
  total_amount :: pyfloat
  discount_rate :: pyfloat
  final_amount :: pyfloat
  category :: string

definition float_0_1 :: pyfloat where
  "float_0_1 = fl_frac 1 10"

definition float_1 :: pyfloat where
  "float_1 = fl_frac 1 1"

definition get_strip :: "raw_record \<Rightarrow> string \<Rightarrow> string \<Rightarrow> py_error + string" where
  \<comment> \<open>\<open>row.get(key, default).strip()\<close>; \<open>None\<close> has no attribute \<open>strip\<close>\<close>
  "get_strip row key dflt =
     (case dict_get row key (Str dflt) of
        Str s \<Rightarrow> Inr (py_strip s)
      | PyNone \<Rightarrow> Inl AttributeError)"

definition get_int :: "raw_record \<Rightarrow> string \<Rightarrow> string \<Rightarrow> py_error + int" where
  \<comment> \<open>\<open>int(row.get(key, default))\<close>; \<open>int(None)\<close> raises \<open>TypeError\<close>\<close>
  "get_int row key dflt =
     (case dict_get row key (Str dflt) of
        Str s \<Rightarrow> py_int s
      | PyNone \<Rightarrow> Inl TypeError)"

definition get_float :: "raw_record \<Rightarrow> string \<Rightarrow> string \<Rightarrow> py_error + pyfloat" where
  \<comment> \<open>\<open>float(row.get(key, default))\<close>; \<open>float(None)\<close> raises \<open>TypeError\<close>\<close>
  "get_float row key dflt =
     (case dict_get row key (Str dflt) of
        Str s \<Rightarrow> py_float s
      | PyNone \<Rightarrow> Inl TypeError)"

definition row_body :: "raw_record \<Rightarrow> py_error + enriched option" where
  \<comment> \<open>the body of the \<open>try\<close> for one row, statement by statement: \<open>Inl e\<close> when it
      raises \<open>e\<close>, \<open>Inr None\<close> when it skips the row with \<open>continue\<close>, \<open>Inr (Some r)\<close>
      when it appends \<open>r\<close>\<close>
  "row_body row =
     (case get_strip row ''order_id'' '''' of
        Inl err \<Rightarrow> Inl err
      | Inr order_id_v \<Rightarrow>
     (case get_strip row ''customer_name'' ''Unknown'' of
        Inl err \<Rightarrow> Inl err
      | Inr name_stripped \<Rightarrow>
     (case get_strip row ''product'' '''' of
        Inl err \<Rightarrow> Inl err
      | Inr product_v \<Rightarrow>
     (case get_int row ''quantity'' ''0'' of
        Inl err \<Rightarrow> Inl err
      | Inr quantity_v \<Rightarrow>
     (case get_float row ''price'' ''0'' of
        Inl err \<Rightarrow> Inl err
      | Inr price_v \<Rightarrow>
     (case get_strip row ''order_date'' '''' of
        Inl err \<Rightarrow> Inl err
      | Inr order_date_str \<Rightarrow>
         if order_id_v = [] \<or> quantity_v \<le> 0 \<or> flt_le_int price_v 0 then Inr None
         else
     (case strptime_ymd order_date_str of
        Inl err \<Rightarrow> Inl err
      | Inr order_date_v \<Rightarrow>
     (case float_of_int quantity_v of
        Inl err \<Rightarrow> Inl err
      | Inr quantity_f \<Rightarrow>
        (let total_amount_v = round2 (fmul quantity_f price_v);
             discount = (if flt_gt_int total_amount_v 1000 then float_0_1 else fzero);
             final_amount_v = round2 (fmul total_amount_v (fsub float_1 discount));
             category_v = (if flt_ge_int final_amount_v 500 then ''High Value'' else ''Standard'')
         in Inr (Some \<lparr>order_id = order_id_v, customer = py_title name_stripped,
                        product = product_v,
                        quantity = quantity_v, price = price_v,
                        order_date = isoformat order_date_v,
                        total_amount = total_amount_v, discount_rate = discount,
                        final_amount = final_amount_v, category = category_v\<rparr>))))))))))"

fun transform_loop :: "raw_record list \<Rightarrow> enriched list \<Rightarrow> py_error + enriched list" where
  \<comment> \<open>the \<open>for\<close> loop; \<open>except (ValueError, KeyError)\<close> continues with the next row, any
      other exception leaves the function\<close>
  "transform_loop [] transformed = Inr transformed"
| "transform_loop (row # rest) transformed =
     (case row_body row of
        Inr (Some rec) \<Rightarrow> transform_loop rest (transformed @ [rec])
      | Inr None \<Rightarrow> transform_loop rest transformed
      | Inl err \<Rightarrow>
          if err = ValueError \<or> err = KeyError then transform_loop rest transformed
          else Inl err)"

definition transform_sales_data :: "raw_record list \<Rightarrow> py_error + enriched list" where
  "transform_sales_data raw_data = transform_loop raw_data []"

subsection \<open>The validation predicates\<close>

text \<open>
  \<open>passes_validation\<close> is the test the code makes: the six fields are read, the two
  numbers parse, the row is not skipped by the \<open>if\<close> and the date parses. \<open>valid_record\<close> is
  the Validated Record of the specification: a non-empty \<open>order_id\<close>, \<open>quantity > 0\<close>,
  \<open>price > 0\<close> and a date that parses. They differ on a price that is NaN, which is neither
  \<open>\<le> 0\<close> nor \<open>> 0\<close>, and on a name or a product that is \<open>None\<close>. \<open>string_fields\<close> says that
  none of the six fields is \<open>None\<close>; \<open>quantity_fits\<close> says that the quantity can be converted
  to a float.
\<close>

definition is_none :: "raw_record \<Rightarrow> string \<Rightarrow> bool" where
  "is_none row key = (row key = Some PyNone)"

definition string_fields :: "raw_record \<Rightarrow> bool" where
  "string_fields row =
     (\<not> is_none row ''order_id'' \<and> \<not> is_none row ''customer_name''
      \<and> \<not> is_none row ''product'' \<and> \<not> is_none row ''quantity''
      \<and> \<not> is_none row ''price'' \<and> \<not> is_none row ''order_date'')"

definition passes_validation :: "raw_record \<Rightarrow> bool" where
  "passes_validation row =
     (case get_strip row ''order_id'' '''' of
        Inl err \<Rightarrow> False
      | Inr oid \<Rightarrow>
     (case get_strip row ''customer_name'' ''Unknown'' of
        Inl err \<Rightarrow> False
      | Inr name_stripped \<Rightarrow>
     (case get_strip row ''product'' '''' of
        Inl err \<Rightarrow> False
      | Inr product_v \<Rightarrow>
     (case get_int row ''quantity'' ''0'' of
        Inl err \<Rightarrow> False
      | Inr q \<Rightarrow>
     (case get_float row ''price'' ''0'' of
        Inl err \<Rightarrow> False
      | Inr p \<Rightarrow>
     (case get_strip row ''order_date'' '''' of
        Inl err \<Rightarrow> False
      | Inr date_str \<Rightarrow>
          \<not> (oid = [] \<or> q \<le> 0 \<or> flt_le_int p 0)
          \<and> (case strptime_ymd date_str of Inl err \<Rightarrow> False | Inr d \<Rightarrow> True)))))))"

definition valid_record :: "raw_record \<Rightarrow> bool" where
  "valid_record row =
     ((case get_strip row ''order_id'' '''' of Inl err \<Rightarrow> False | Inr oid \<Rightarrow> oid \<noteq> [])
      \<and> (case get_int row ''quantity'' ''0'' of Inl err \<Rightarrow> False | Inr q \<Rightarrow> 0 < q)
      \<and> (case get_float row ''price'' ''0'' of
           Inl err \<Rightarrow> False
         | Inr p \<Rightarrow> flt_gt_int p 0)
      \<and> (case get_strip row ''order_date'' '''' of
           Inl err \<Rightarrow> False
         | Inr date_str \<Rightarrow>
             (case strptime_ymd date_str of Inl err \<Rightarrow> False | Inr d \<Rightarrow> True)))"

definition quantity_fits :: "raw_record \<Rightarrow> bool" where
  "quantity_fits row =
     (case get_int row ''quantity'' ''0'' of
        Inl err \<Rightarrow> False
      | Inr q \<Rightarrow> (case float_of_int q of Inl err \<Rightarrow> False | Inr f \<Rightarrow> True))"

definition parse_date :: "raw_record \<Rightarrow> py_error + date" where
  "parse_date row =
     (case get_strip row ''order_date'' '''' of
        Inl err \<Rightarrow> Inl err
      | Inr date_str \<Rightarrow> strptime_ymd date_str)"

definition from_row :: "raw_record \<Rightarrow> enriched \<Rightarrow> bool" where
  \<comment> \<open>the record carries the cleaned and parsed fields of the row, and its
      \<open>total_amount\<close> is \<open>round(quantity * price, 2)\<close>\<close>
  "from_row row rec =
     (get_strip row ''order_id'' '''' = Inr (order_id rec)
      \<and> map_sum id py_title (get_strip row ''customer_name'' ''Unknown'') = Inr (customer rec)
      \<and> get_strip row ''product'' '''' = Inr (product rec)
      \<and> get_int row ''quantity'' ''0'' = Inr (quantity rec)
      \<and> get_float row ''price'' ''0'' = Inr (price rec)
      \<and> map_sum id isoformat (parse_date row) = Inr (order_date rec)
      \<and> map_sum id (\<lambda>qf. round2 (fmul qf (price rec))) (float_of_int (quantity rec))
          = Inr (total_amount rec))"

subsection \<open>The sample data of the script\<close>

definition sample_row ::
  "string \<Rightarrow> string \<Rightarrow> string \<Rightarrow> string \<Rightarrow> string \<Rightarrow> string \<Rightarrow> raw_record" where
  \<comment> \<open>a row as \<open>csv.DictReader\<close> returns it for the header the script writes\<close>
  "sample_row oid cname pname qty prc odate =
     map_of [(''order_id'', Str oid), (''customer_name'', Str cname), (''product'', Str pname),
             (''quantity'', Str qty), (''price'', Str prc), (''order_date'', Str odate)]"

definition sample_rows :: "raw_record list" where
  "sample_rows =
     [sample_row ''ORD001'' ''john doe'' ''Laptop'' ''2'' ''899.99'' ''2026-02-15'',
      sample_row ''ORD002'' ''JANE SMITH'' ''Mouse'' ''5'' ''25.50'' ''2026-02-16'',
      sample_row ''ORD003'' ''alice brown'' ''Monitor'' ''3'' ''450.00'' ''2026-02-17'',
      sample_row ''ORD004'' ''bob wilson'' ''Keyboard'' ''10'' ''75.00'' ''2026-02-18'',
      sample_row ''ORD005'' ''john doe'' ''Desk'' ''1'' ''599.99'' ''2026-02-20'',
      sample_row ''INVALID'' ''test'' ''Bad'' ''-1'' ''0'' ''2026-02-21'']"

definition float_literal :: "string \<Rightarrow> pyfloat" where
  \<comment> \<open>the float that a decimal literal denotes\<close>
  "float_literal s = (case py_float s of Inl err \<Rightarrow> NaN | Inr x \<Rightarrow> x)"

definition huge_quantity :: string where
  \<comment> \<open>the decimal literal of \<open>10^309\<close>: a one followed by 309 zeros\<close>
  "huge_quantity = CHR ''1'' # replicate 309 (CHR ''0'')"

definition huge_row :: raw_record where
  "huge_row = sample_row ''ORD900'' ''big buyer'' ''Bolt'' huge_quantity ''1.5'' ''2026-02-22''"

text \<open>The five records that the specification expects for the sample data.\<close>

definition sample_record_1 :: enriched where
  "sample_record_1 =
     \<lparr>order_id = ''ORD001'', customer = codes ''John Doe'', product = ''Laptop'',
       quantity = 2, price = float_literal ''899.99'', order_date = ''2026-02-15'',
       total_amount = float_literal ''1799.98'', discount_rate = float_literal ''0.1'',
       final_amount = float_literal ''1619.98'', category = ''High Value''\<rparr>"

definition sample_record_2 :: enriched where
  "sample_record_2 =
     \<lparr>order_id = ''ORD002'', customer = codes ''Jane Smith'', product = ''Mouse'',
       quantity = 5, price = float_literal ''25.50'', order_date = ''2026-02-16'',
       total_amount = float_literal ''127.50'', discount_rate = float_literal ''0.0'',
       final_amount = float_literal ''127.50'', category = ''Standard''\<rparr>"

definition sample_record_3 :: enriched where
  "sample_record_3 =
     \<lparr>order_id = ''ORD003'', customer = codes ''Alice Brown'', product = ''Monitor'',
       quantity = 3, price = float_literal ''450.00'', order_date = ''2026-02-17'',
       total_amount = float_literal ''1350.00'', discount_rate = float_literal ''0.1'',
       final_amount = float_literal ''1215.00'', category = ''High Value''\<rparr>"

definition sample_record_4 :: enriched where
  "sample_record_4 =
     \<lparr>order_id = ''ORD004'', customer = codes ''Bob Wilson'', product = ''Keyboard'',
       quantity = 10, price = float_literal ''75.00'', order_date = ''2026-02-18'',
       total_amount = float_literal ''750.00'', discount_rate = float_literal ''0.0'',
       final_amount = float_literal ''750.00'', category = ''High Value''\<rparr>"

definition sample_record_5 :: enriched where
  "sample_record_5 =
     \<lparr>order_id = ''ORD005'', customer = codes ''John Doe'', product = ''Desk'',
       quantity = 1, price = float_literal ''599.99'', order_date = ''2026-02-20'',
       total_amount = float_literal ''599.99'', discount_rate = float_literal ''0.0'',
       final_amount = float_literal ''599.99'', category = ''High Value''\<rparr>"

text \<open>
  Rows on the two thresholds, rows without the keys \<open>customer_name\<close> and \<open>product\<close>, a
  row with a blank name, and rows with a cell that is \<open>None\<close>.
\<close>

definition boundary_1000_row :: raw_record where
  "boundary_1000_row =
     sample_row ''ORD100'' ''carol king'' ''Chair'' ''10'' ''100'' ''2026-03-01''"

definition boundary_1000_record :: enriched where
  "boundary_1000_record =
     \<lparr>order_id = ''ORD100'', customer = codes ''Carol King'', product = ''Chair'',
       quantity = 10, price = float_literal ''100'', order_date = ''2026-03-01'',
       total_amount = float_literal ''1000'', discount_rate = float_literal ''0.0'',
       final_amount = float_literal ''1000'', category = ''High Value''\<rparr>"

definition boundary_500_row :: raw_record where
  "boundary_500_row =
     sample_row ''ORD500'' ''dan poe'' ''Lamp'' ''1'' ''500'' ''2026-03-01''"

definition boundary_500_record :: enriched where
  "boundary_500_record =
     \<lparr>order_id = ''ORD500'', customer = codes ''Dan Poe'', product = ''Lamp'',
       quantity = 1, price = float_literal ''500'', order_date = ''2026-03-01'',
       total_amount = float_literal ''500'', discount_rate = float_literal ''0.0'',
       final_amount = float_literal ''500'', category = ''High Value''\<rparr>"



definition huge_no_name_row :: raw_record where
  \<comment> \<open>the quantity of \<open>huge_row\<close> in a row without the keys \<open>customer_name\<close> and
      \<open>product\<close>\<close>
  "huge_no_name_row =
     map_of [(''order_id'', Str ''ORD901''), (''quantity'', Str huge_quantity),
             (''price'', Str ''1.5''), (''order_date'', Str ''2026-02-22'')]"

definition short_row :: raw_record where
  \<comment> \<open>the row that \<open>csv.DictReader\<close> returns for the line \<open>ORD006,eve\<close> under the
      header of six columns: the four missing cells are \<open>None\<close>\<close>
  "short_row =
     map_of [(''order_id'', Str ''ORD006''), (''customer_name'', Str ''eve''),
             (''product'', PyNone), (''quantity'', PyNone), (''price'', PyNone),
             (''order_date'', PyNone)]"

definition none_name_row :: raw_record where
  \<comment> \<open>the row that \<open>csv.DictReader\<close> returns for the line
      \<open>ORD779,4,2.5,2026-03-02,Pen\<close> under the header
      \<open>order_id,quantity,price,order_date,product,customer_name\<close>: the cell of the last
      column is \<open>None\<close>\<close>
  "none_name_row =
     map_of [(''order_id'', Str ''ORD779''), (''quantity'', Str ''4''), (''price'', Str ''2.5''),
             (''order_date'', Str ''2026-03-02''), (''product'', Str ''Pen''),
             (''customer_name'', PyNone)]"



section \<open>The destination and the loaders\<close>

text \<open>
  The BigQuery project is a state: the datasets and the tables it holds, in the order of
  their creation (a list, so that a duplicate would show), and the rows of each table. The
  state also counts the readings of the wall clock and names the connections and files
  that are open. What lies outside the scripts is a parameter: the readings of the clock,
  whether the load job and the report query succeed, what a source returns.
  A row handed to a loader is a dictionary that may or may not have the key
  \<open>loaded_at\<close>: its other keys are \<open>columns\<close>, and \<open>loaded_at\<close> is optional.
\<close>

record 'a row =
  columns :: 'a
  loaded_at :: "string option"

definition unstamped :: "'a \<Rightarrow> 'a row" where
  "unstamped r = \<lparr>columns = r, loaded_at = None\<rparr>"

record 'a world =
  datasets :: "string list"
  tables :: "(string \<times> string) list"
  table_rows :: "string \<times> string \<Rightarrow> 'a row list"
  clock_reads :: nat
  open_handles :: "string list"

record loader_env =
  clock :: "nat \<Rightarrow> string"
  load_job_ok :: bool
  query_ok :: bool

definition utcnow :: "loader_env \<Rightarrow> 'a world \<Rightarrow> string \<times> 'a world" where
  \<comment> \<open>\<open>datetime.utcnow().isoformat()\<close>: the next reading of the clock\<close>
  "utcnow env w = (clock env (clock_reads w), w\<lparr>clock_reads := clock_reads w + 1\<rparr>)"

definition get_dataset :: "'a world \<Rightarrow> string \<Rightarrow> py_error + unit" where
  "get_dataset w dataset_id = (if dataset_id \<in> set (datasets w) then Inr () else Inl NotFound)"

definition create_dataset :: "'a world \<Rightarrow> string \<Rightarrow> (py_error + unit) \<times> 'a world" where
  "create_dataset w dataset_id =
     (if dataset_id \<in> set (datasets w) then (Inl Conflict, w)
      else (Inr (), w\<lparr>datasets := datasets w @ [dataset_id]\<rparr>))"

definition get_table :: "'a world \<Rightarrow> string \<times> string \<Rightarrow> py_error + unit" where
  "get_table w table_ref = (if table_ref \<in> set (tables w) then Inr () else Inl NotFound)"

definition create_table :: "'a world \<Rightarrow> string \<times> string \<Rightarrow> (py_error + unit) \<times> 'a world" where
  "create_table w table_ref =
     (if fst table_ref \<notin> set (datasets w) then (Inl NotFound, w)
      else if table_ref \<in> set (tables w) then (Inl Conflict, w)
      else (Inr (), w\<lparr>tables := tables w @ [table_ref]\<rparr>))"

definition load_table_from_json ::
  "loader_env \<Rightarrow> 'a row list \<Rightarrow> string \<times> string \<Rightarrow> 'a world \<Rightarrow> (py_error + unit) \<times> 'a world" where
  \<comment> \<open>the load job and \<open>job.result()\<close>: an append, which creates the table when the
      dataset has none of that name\<close>
  "load_table_from_json env data table_ref w =
     (if \<not> load_job_ok env then (Inl LoadJobFailed, w)
      else if fst table_ref \<notin> set (datasets w) then (Inl NotFound, w)
      else (Inr (),
            w\<lparr>tables := (if table_ref \<in> set (tables w) then tables w
                           else tables w @ [table_ref]),
              table_rows := (table_rows w)(table_ref := table_rows w table_ref @ data)\<rparr>))"

definition run_report :: "loader_env \<Rightarrow> 'a world \<Rightarrow> py_error + unit" where
  \<comment> \<open>\<open>client.query(query)\<close> and the loop that prints its rows\<close>
  "run_report env w = (if query_ok env then Inr () else Inl QueryFailed)"

subsection \<open>\<open>load_to_bigquery\<close> of the CSV pipeline\<close>

definition ensure_dataset :: "string \<Rightarrow> 'a world \<Rightarrow> (py_error + unit) \<times> 'a world" where
  \<comment> \<open>\<open>try: client.get_dataset(...) except NotFound: client.create_dataset(...)\<close>\<close>
  "ensure_dataset dataset_id w =
     (case get_dataset w dataset_id of
        Inr u \<Rightarrow> (Inr (), w)
      | Inl err \<Rightarrow> if err = NotFound then create_dataset w dataset_id else (Inl err, w))"

definition ensure_table :: "string \<times> string \<Rightarrow> 'a world \<Rightarrow> (py_error + unit) \<times> 'a world" where
  \<comment> \<open>\<open>try: client.get_table(...) except NotFound: client.create_table(...)\<close>\<close>
  "ensure_table table_ref w =
     (case get_table w table_ref of
        Inr u \<Rightarrow> (Inr (), w)
      | Inl err \<Rightarrow> if err = NotFound then create_table w table_ref else (Inl err, w))"

definition stamp_all :: "string \<Rightarrow> 'a row list \<Rightarrow> 'a row list" where
  \<comment> \<open>\<open>for row in data: row["loaded_at"] = loaded_at\<close>\<close>
  "stamp_all t data = map (\<lambda>r. r\<lparr>loaded_at := Some t\<rparr>) data"

definition load_to_bigquery ::
  "loader_env \<Rightarrow> 'a row list \<Rightarrow> string \<Rightarrow> string \<Rightarrow> string \<Rightarrow> 'a world
     \<Rightarrow> (py_error + unit) \<times> 'a row list \<times> 'a world" where
  \<comment> \<open>returns the outcome, the list \<open>data\<close> as the function leaves it, and the new state\<close>
  "load_to_bigquery env data project_id dataset_id table_id w =
     (case ensure_dataset dataset_id w of
        (Inl err, w1) \<Rightarrow> (Inl err, data, w1)
      | (Inr u1, w1) \<Rightarrow>
     (case ensure_table (dataset_id, table_id) w1 of
        (Inl err, w2) \<Rightarrow> (Inl err, data, w2)
      | (Inr u2, w2) \<Rightarrow>
     (case utcnow env w2 of (t, w3) \<Rightarrow>
     (let data1 = stamp_all t data
      in case load_table_from_json env data1 (dataset_id, table_id) w3 of
           (Inl err, w4) \<Rightarrow> (Inl err, data1, w4)
         | (Inr u3, w4) \<Rightarrow>
        (case run_report env w4 of
           Inl err \<Rightarrow> (Inl err, data1, w4)
         | Inr u4 \<Rightarrow> (Inr (), data1, w4))))))"

subsection \<open>The extractors\<close>

record csv_env =
  file_opens :: bool
  csv_read :: "py_error + raw_record list"

definition extract_sales_data ::
  "csv_env \<Rightarrow> string \<Rightarrow> 'a world \<Rightarrow> (py_error + raw_record list) \<times> 'a world" where
  \<comment> \<open>\<open>with open(csv_path) as f: data = list(csv.DictReader(f))\<close>: the file is closed
      when the block is left, also by an exception\<close>
  "extract_sales_data env csv_path w =
     (if \<not> file_opens env then (Inl FileOpenFailed, w)
      else (let w1 = w\<lparr>open_handles := csv_path # open_handles w\<rparr>;
                data = csv_read env;
                w2 = w1\<lparr>open_handles := remove1 csv_path (open_handles w1)\<rparr>
            in (data, w2)))"

record 'd mssql_env =
  connect_ok :: bool
  read_sql :: "py_error + 'd"

definition extract_mssql ::
  "'d mssql_env \<Rightarrow> 'a world \<Rightarrow> (py_error + 'd) \<times> 'a world" where
  \<comment> \<open>step 1 of the MSSQL script: \<open>conn = pyodbc.connect(...)\<close>,
      \<open>df = pd.read_sql(query, conn)\<close>, \<open>conn.close()\<close>, one statement after the other\<close>
  "extract_mssql env w =
     (if \<not> connect_ok env then (Inl ConnectionFailed, w)
      else (let w1 = w\<lparr>open_handles := ''conn'' # open_handles w\<rparr>
            in case read_sql env of
                 Inl err \<Rightarrow> (Inl err, w1)
               | Inr df \<Rightarrow> (Inr df, w1\<lparr>open_handles := remove1 ''conn'' (open_handles w1)\<rparr>)))"

subsection \<open>\<open>run_etl_pipeline\<close>\<close>

definition run_etl_pipeline ::
  "csv_env \<Rightarrow> loader_env \<Rightarrow> string \<Rightarrow> string \<Rightarrow> string \<Rightarrow> string \<Rightarrow> enriched world
     \<Rightarrow> (py_error + unit) \<times> enriched world" where
  "run_etl_pipeline cenv lenv csv_path project_id dataset_id table_id w =
     (case extract_sales_data cenv csv_path w of
        (Inl err, w1) \<Rightarrow> (Inl err, w1)
      | (Inr raw_data, w1) \<Rightarrow>
     (case transform_sales_data raw_data of
        Inl err \<Rightarrow> (Inl err, w1)
      | Inr transformed_data \<Rightarrow>
     (case load_to_bigquery lenv (map unstamped transformed_data)
             project_id dataset_id table_id w1 of
        (outcome, data, w2) \<Rightarrow> (outcome, w2))))"

subsection \<open>\<open>etl_to_bigquery\<close> of the hardcoded pipeline\<close>

record sale =
  sale_order_id :: string
  sale_customer :: string
  amount :: pyfloat

definition sales_data :: "sale row list" where
  "sales_data =
     [unstamped \<lparr>sale_order_id = ''ORD001'', sale_customer = ''Alice'',
                 amount = float_literal ''150.00''\<rparr>,
      unstamped \<lparr>sale_order_id = ''ORD002'', sale_customer = ''Bob'',
                 amount = float_literal ''200.50''\<rparr>,
      unstamped \<lparr>sale_order_id = ''ORD003'', sale_customer = ''Alice'',
                 amount = float_literal ''75.25''\<rparr>]"

fun stamp_each :: "loader_env \<Rightarrow> 'a row list \<Rightarrow> 'b world \<Rightarrow> 'a row list \<times> 'b world" where
  \<comment> \<open>\<open>for row in sales_data: row["loaded_at"] = datetime.utcnow().isoformat()\<close>\<close>
  "stamp_each env [] w = ([], w)"
| "stamp_each env (r # rest) w =
     (case utcnow env w of (t, w1) \<Rightarrow>
        (case stamp_each env rest w1 of (rest1, w2) \<Rightarrow> (r\<lparr>loaded_at := Some t\<rparr> # rest1, w2)))"

definition etl_to_bigquery ::
  "loader_env \<Rightarrow> sale world \<Rightarrow> (py_error + unit) \<times> sale row list \<times> sale world" where
  "etl_to_bigquery env w =
     (case stamp_each env sales_data w of (data, w1) \<Rightarrow>
        (case load_table_from_json env data (''sales_data'', ''sales'') w1 of
           (outcome, w2) \<Rightarrow> (outcome, data, w2)))"

definition ticking_clock :: "nat \<Rightarrow> string" where
  \<comment> \<open>a clock that advances by a microsecond from one reading to the next\<close>
  "ticking_clock n = ''2026-02-15T10:00:00.00000'' @ [digit_char n]"

definition empty_world :: "'a world" where
  "empty_world =
     \<lparr>datasets = [], tables = [], table_rows = (\<lambda>table_ref. []), clock_reads = 0,
       open_handles = []\<rparr>"







subsection \<open>Environments and states for the examples\<close>

definition tick_env :: loader_env where
  "tick_env = \<lparr>clock = ticking_clock, load_job_ok = True, query_ok = True\<rparr>"

definition report_fails_env :: loader_env where
  "report_fails_env = \<lparr>clock = ticking_clock, load_job_ok = True, query_ok = False\<rparr>"

definition sales_world :: "'a world" where
  \<comment> \<open>a project that holds the dataset \<open>sales_data\<close> and its table \<open>sales\<close>, still empty\<close>
  "sales_world =
     \<lparr>datasets = [''sales_data''], tables = [(''sales_data'', ''sales'')],
       table_rows = (\<lambda>table_ref. []), clock_reads = 0, open_handles = []\<rparr>"

definition read_fails_env :: "unit mssql_env" where
  "read_fails_env = \<lparr>connect_ok = True, read_sql = Inl ReadFailed\<rparr>"

definition sample_csv_env :: csv_env where
  "sample_csv_env = \<lparr>file_opens = True, csv_read = Inr sample_rows\<rparr>"

section \<open>Properties of the library model\<close>

lemma bit_length_0: "bit_length 0 = 0"
  by (simp add: bit_length.simps)

lemma bit_length_1: "bit_length 1 = 1"
  by (simp add: bit_length.simps)

lemma bit_length_Suc0: "bit_length (Suc 0) = 1"
  by (simp add: bit_length.simps)

lemma bit_length_One: "bit_length (numeral num.One) = 1"
  by (simp add: bit_length.simps)

lemma bit_length_Bit0: "bit_length (numeral (num.Bit0 n)) = 1 + bit_length (numeral n)"
  by (subst bit_length.simps) simp

lemma bit_length_Bit1: "bit_length (numeral (num.Bit1 n)) = 1 + bit_length (numeral n)"
  by (subst bit_length.simps) simp

lemmas fl_eval =
  fl_frac_def fl_pos_def overflow_threshold_def round_to_binary64_def fl_dyadic_def fzero_def
  round_half_even_frac_def Let_def
  bit_length_0 bit_length_1 bit_length_Suc0 bit_length_One bit_length_Bit0 bit_length_Bit1

lemmas str_eval =
  py_strip_def is_space_def strip_c_def is_cspace_def py_title_def codes_def title_char_def
  lower_char_def is_cased_def ascii_lower_def digit_val_def is_digit_def
  digits_value_def dict_get_def get_strip_def get_int_def get_float_def

lemmas parse_eval =
  py_int_def max_str_digits_def py_float_def parse_decimal_def parse_mantissa_def
  parse_exponent_def is_exp_mark_def

lemmas date_eval =
  month_day_matches_def after_dash_def dv_def days_in_month_def is_leap_def
  isoformat_def digit_char_def

lemma py_int_error: "py_int s = Inl err \<Longrightarrow> err = ValueError"
  by (auto simp: py_int_def split: prod.splits option.splits if_splits)

lemma py_float_error: "py_float s = Inl err \<Longrightarrow> err = ValueError"
  by (auto simp: py_float_def Let_def split: prod.splits option.splits if_splits)

lemma strptime_ymd_error: "strptime_ymd s = Inl err \<Longrightarrow> err = ValueError"
  by (induction s rule: strptime_ymd.induct)
     (auto simp: Let_def split: list.splits if_splits prod.splits)

lemma overflow_threshold_pos: "0 < overflow_threshold"
  by (simp add: overflow_threshold_def)

lemma fl_pos_not_NaN: "fl_pos n b \<noteq> NaN"
  by (simp add: fl_pos_def split: prod.splits)

lemma fl_pos_not_NInf: "fl_pos n b \<noteq> NInf"
  by (simp add: fl_pos_def split: prod.splits)

lemma fl_pos_PInf_iff: "fl_pos n b = PInf \<longleftrightarrow> overflow_threshold * b \<le> n"
  by (simp add: fl_pos_def split: prod.splits)

lemma float_of_int_error: "float_of_int n = Inl err \<Longrightarrow> err = OverflowError"
  by (auto simp: float_of_int_def split: pyfloat.splits)

lemma float_of_int_overflow_iff:
  "float_of_int n = Inl OverflowError \<longleftrightarrow> overflow_threshold \<le> \<bar>n\<bar>"
proof -
  have pos: "fl_frac n 1 = fl_pos n 1" if "0 < n"
    using that by (simp add: fl_frac_def)
  have neg: "fl_frac n 1 = fneg (fl_pos (- n) 1)" if "n < 0"
    using that by (simp add: fl_frac_def)
  consider "n = 0" | "0 < n" | "n < 0" by linarith
  then show ?thesis
  proof cases
    case 1
    then show ?thesis
      using overflow_threshold_pos by (simp add: float_of_int_def fl_frac_def fzero_def)
  next
    case 2
    then show ?thesis
      using fl_pos_PInf_iff [of n 1] fl_pos_not_NaN [of n 1] fl_pos_not_NInf [of n 1]
      by (cases "fl_pos n 1") (simp_all add: float_of_int_def pos)
  next
    case 3
    then show ?thesis
      using fl_pos_PInf_iff [of "- n" 1] fl_pos_not_NaN [of "- n" 1] fl_pos_not_NInf [of "- n" 1]
      by (cases "fl_pos (- n) 1") (simp_all add: float_of_int_def neg)
  qed
qed

lemma get_strip_error:
  assumes "get_strip row key dflt = Inl err"
  shows "err = AttributeError \<and> is_none row key"
  using assms
  by (auto simp: get_strip_def dict_get_def is_none_def split: option.splits cell.splits)

lemma get_int_error:
  assumes "get_int row key dflt = Inl err"
  shows "err = ValueError \<or> (err = TypeError \<and> is_none row key)"
  using assms
  by (auto simp: get_int_def dict_get_def is_none_def
           split: option.splits cell.splits dest: py_int_error)

lemma get_float_error:
  assumes "get_float row key dflt = Inl err"
  shows "err = ValueError \<or> (err = TypeError \<and> is_none row key)"
  using assms
  by (auto simp: get_float_def dict_get_def is_none_def
           split: option.splits cell.splits dest: py_float_error)

section \<open>Properties of \<open>transform_sales_data\<close>\<close>

text \<open>
  A row has one of four outcomes. It is appended when it passes the checks and its
  quantity fits a float; it raises \<open>OverflowError\<close> when it passes and the quantity does
  not fit; it raises \<open>AttributeError\<close> or \<open>TypeError\<close> only when one of its six fields is
  \<open>None\<close>; otherwise it is skipped, by \<open>continue\<close> or by the handler of \<open>ValueError\<close>.
\<close>

lemma row_body_accepts:
  assumes "passes_validation row" and "quantity_fits row"
  shows "\<exists>rec. row_body row = Inr (Some rec) \<and> from_row row rec"
  using assms
  by (auto simp: row_body_def passes_validation_def quantity_fits_def from_row_def
                 parse_date_def Let_def
           split: sum.splits)

lemma string_fields_get_strip:
  assumes "string_fields row"
  shows "\<exists>s. get_strip row ''order_id'' '''' = Inr s"
    and "\<exists>s. get_strip row ''customer_name'' ''Unknown'' = Inr s"
    and "\<exists>s. get_strip row ''product'' '''' = Inr s"
    and "\<exists>s. get_strip row ''order_date'' '''' = Inr s"
  using assms
  by (auto simp: string_fields_def is_none_def get_strip_def dict_get_def
           split: option.splits cell.splits)

lemma string_fields_get_number:
  assumes "string_fields row"
  shows "get_int row ''quantity'' ''0'' = Inl err \<Longrightarrow> err = ValueError"
    and "get_float row ''price'' ''0'' = Inl err \<Longrightarrow> err = ValueError"
  using assms get_int_error [of row "''quantity''" "''0''" err]
    get_float_error [of row "''price''" "''0''" err]
  by (auto simp: string_fields_def)

lemma row_body_rejects:
  assumes "string_fields row" and "\<not> passes_validation row"
  shows "row_body row = Inr None \<or> row_body row = Inl ValueError"
proof -
  from string_fields_get_strip [OF assms(1)] obtain oid name pname date_str
    where strs: "get_strip row ''order_id'' '''' = Inr oid"
      "get_strip row ''customer_name'' ''Unknown'' = Inr name"
      "get_strip row ''product'' '''' = Inr pname"
      "get_strip row ''order_date'' '''' = Inr date_str"
    by blast
  show ?thesis
  proof (cases "get_int row ''quantity'' ''0''")
    case (Inl err)
    with string_fields_get_number(1) [OF assms(1)] have "err = ValueError" by simp
    with Inl strs show ?thesis by (simp add: row_body_def)
  next
    case q: (Inr q)
    show ?thesis
    proof (cases "get_float row ''price'' ''0''")
      case (Inl err)
      with string_fields_get_number(2) [OF assms(1)] have "err = ValueError" by simp
      with Inl q strs show ?thesis by (simp add: row_body_def)
    next
      case p: (Inr p)
      from assms(2) strs q p show ?thesis
        by (auto simp: row_body_def passes_validation_def
                 split: sum.splits dest: strptime_ymd_error)
    qed
  qed
qed

lemma row_body_overflow:
  assumes "passes_validation row" and "\<not> quantity_fits row"
  shows "row_body row = Inl OverflowError"
  using assms
  by (auto simp: row_body_def passes_validation_def quantity_fits_def Let_def
           split: sum.splits dest: float_of_int_error)

lemma row_body_Some:
  assumes "row_body row = Inr (Some rec)"
  shows "passes_validation row \<and> quantity_fits row \<and> from_row row rec"
  using assms
  by (auto simp: row_body_def passes_validation_def quantity_fits_def from_row_def
                 parse_date_def Let_def
           split: sum.splits if_splits)

lemma passes_validation_outcome:
  assumes "passes_validation row"
  shows "(\<exists>rec. row_body row = Inr (Some rec)) \<or> row_body row = Inl OverflowError"
proof (cases "quantity_fits row")
  case True
  from row_body_accepts [OF assms True] show ?thesis by blast
next
  case False
  from row_body_overflow [OF assms False] show ?thesis by simp
qed

lemma row_body_none_field:
  assumes "row_body row = Inl err" and "err \<noteq> ValueError" and "err \<noteq> OverflowError"
  shows "(err = AttributeError \<or> err = TypeError) \<and> \<not> string_fields row"
  using assms
  by (auto simp: row_body_def string_fields_def Let_def
           split: sum.splits if_splits
           dest: get_strip_error get_int_error get_float_error strptime_ymd_error
                 float_of_int_error)


lemma transform_loop_aborts:
  assumes "list_all string_fields rows"
    and "\<not> list_all quantity_fits (filter passes_validation rows)"
  shows "transform_loop rows acc = Inl OverflowError"
  using assms
proof (induction rows arbitrary: acc)
  case Nil
  then show ?case by simp
next
  case (Cons row rows)
  from Cons.prems(1) have strings: "string_fields row" and strings_rest: "list_all string_fields rows"
    by simp_all
  show ?case
  proof (cases "passes_validation row")
    case True
    show ?thesis
    proof (cases "quantity_fits row")
      case fits: True
      from row_body_accepts [OF True fits] obtain rec
        where rec: "row_body row = Inr (Some rec)" by blast
      from Cons.prems(2) True fits
      have "\<not> list_all quantity_fits (filter passes_validation rows)" by simp
      from Cons.IH [OF strings_rest this, of "acc @ [rec]"] rec show ?thesis by simp
    next
      case False
      from row_body_overflow [OF True False] show ?thesis by simp
    qed
  next
    case False
    with Cons.prems(2) have "\<not> list_all quantity_fits (filter passes_validation rows)"
      by simp
    from Cons.IH [OF strings_rest this, of acc] row_body_rejects [OF strings False]
    show ?thesis by auto
  qed
qed

lemma transform_loop_result:
  assumes "transform_loop rows acc = Inr out"
  shows "\<exists>new. out = acc @ new \<and> list_all2 from_row (filter passes_validation rows) new"
  using assms
proof (induction rows arbitrary: acc)
  case Nil
  then show ?case by simp
next
  case (Cons row rows)
  show ?case
  proof (cases "row_body row")
    case (Inl err)
    with Cons.prems have rest: "transform_loop rows acc = Inr out"
      by (simp split: if_splits)
    from passes_validation_outcome [of row] Inl Cons.prems
    have "\<not> passes_validation row"
      by (auto split: if_splits)
    with Cons.IH [OF rest] show ?thesis by simp
  next
    case (Inr r)
    show ?thesis
    proof (cases r)
      case None
      with Inr Cons.prems have rest: "transform_loop rows acc = Inr out" by simp
      from passes_validation_outcome [of row] Inr None
      have "\<not> passes_validation row" by auto
      with Cons.IH [OF rest] show ?thesis by simp
    next
      case (Some rec)
      with Inr Cons.prems have rest: "transform_loop rows (acc @ [rec]) = Inr out" by simp
      from row_body_Some [of row rec] Inr Some
      have "passes_validation row" and "from_row row rec" by simp_all
      with Cons.IH [OF rest] show ?thesis by auto
    qed
  qed
qed

lemma transform_loop_members:
  assumes "transform_loop rows acc = Inr out" and "rec \<in> set out"
  shows "rec \<in> set acc \<or> (\<exists>row \<in> set rows. row_body row = Inr (Some rec))"
  using assms
proof (induction rows arbitrary: acc)
  case Nil
  then show ?case by simp
next
  case (Cons row rows)
  show ?case
  proof (cases "row_body row")
    case (Inl err)
    with Cons.prems have "transform_loop rows acc = Inr out"
      by (simp split: if_splits)
    from Cons.IH [OF this Cons.prems(2)] show ?thesis by auto
  next
    case (Inr r)
    show ?thesis
    proof (cases r)
      case None
      with Inr Cons.prems have "transform_loop rows acc = Inr out" by simp
      from Cons.IH [OF this Cons.prems(2)] show ?thesis by auto
    next
      case (Some rec')
      with Inr Cons.prems have "transform_loop rows (acc @ [rec']) = Inr out" by simp
      from Cons.IH [OF this Cons.prems(2)] Inr Some show ?thesis by auto
    qed
  qed
qed

lemma transform_loop_none_aborts:
  assumes "row_body row = Inl err" and "err \<noteq> ValueError" and "err \<noteq> KeyError"
    and "transform_loop before acc = Inr out"
  shows "transform_loop (before @ row # rest) acc = Inl err"
  using assms(4)
proof (induction before arbitrary: acc)
  case Nil
  with assms(1-3) show ?case by simp
next
  case (Cons r before)
  then show ?case
    by (cases "row_body r") (auto split: option.splits if_splits)
qed

subsection \<open>The floats of the sample data\<close>

text \<open>
  Each step of the arithmetic on the sample rows, evaluated on its own: the literals, the
  products, the roundings.
\<close>

lemma float_0_1_value: "float_0_1 = Fin 7205759403792794 (- 56)"
  by (simp add: float_0_1_def fl_eval)

lemma float_1_value: "float_1 = Fin 4503599627370496 (- 52)"
  by (simp add: float_1_def fl_eval)

lemma one_minus_tenth: "fsub (Fin 4503599627370496 (- 52)) (Fin 7205759403792794 (- 56)) = Fin 8106479329266893 (- 53)"
  by (simp add: fl_eval)

lemma one_minus_zero: "fsub (Fin 4503599627370496 (- 52)) (Fin 0 (- 1074)) = Fin 4503599627370496 (- 52)"
  by (simp add: fl_eval)

lemma lit_0_1: "py_float ''0.1'' = Inr (Fin 7205759403792794 (- 56))"
  by (simp add: str_eval parse_eval fl_eval)

lemma lit_899_99: "py_float ''899.99'' = Inr (Fin 7916395759056978 (- 43))"
  by (simp add: str_eval parse_eval fl_eval)

lemma lit_1799_98: "py_float ''1799.98'' = Inr (Fin 7916395759056978 (- 42))"
  by (simp add: str_eval parse_eval fl_eval)

lemma lit_1619_98: "py_float ''1619.98'' = Inr (Fin 7124747387058258 (- 42))"
  by (simp add: str_eval parse_eval fl_eval)

lemma row1_quantity: "float_of_int 2 = Inr (Fin 4503599627370496 (- 51))"
  by (simp add: float_of_int_def fl_eval)

lemma row1_product: "fmul (Fin 4503599627370496 (- 51)) (Fin 7916395759056978 (- 43)) = Fin 7916395759056978 (- 42)"
  by (simp add: fl_eval)

lemma row1_total: "round2 (Fin 7916395759056978 (- 42)) = Fin 7916395759056978 (- 42)"
  by (simp add: fl_eval)

lemma row1_discounted: "fmul (Fin 7916395759056978 (- 42)) (Fin 8106479329266893 (- 53)) = Fin 7124756183151280 (- 42)"
  by (simp add: fl_eval)

lemma row1_final: "round2 (Fin 7124756183151280 (- 42)) = Fin 7124747387058258 (- 42)"
  by (simp add: fl_eval)

lemma lit_25_50: "py_float ''25.50'' = Inr (Fin 7177611906121728 (- 48))"
  by (simp add: str_eval parse_eval fl_eval)

lemma lit_127_50: "py_float ''127.50'' = Inr (Fin 8972014882652160 (- 46))"
  by (simp add: str_eval parse_eval fl_eval)

lemma row2_quantity: "float_of_int 5 = Inr (Fin 5629499534213120 (- 50))"
  by (simp add: float_of_int_def fl_eval)

lemma row2_product: "fmul (Fin 5629499534213120 (- 50)) (Fin 7177611906121728 (- 48)) = Fin 8972014882652160 (- 46)"
  by (simp add: fl_eval)

lemma row2_total: "round2 (Fin 8972014882652160 (- 46)) = Fin 8972014882652160 (- 46)"
  by (simp add: fl_eval)

lemma row2_discounted: "fmul (Fin 8972014882652160 (- 46)) (Fin 4503599627370496 (- 52)) = Fin 8972014882652160 (- 46)"
  by (simp add: fl_eval)

lemma row2_final: "round2 (Fin 8972014882652160 (- 46)) = Fin 8972014882652160 (- 46)"
  by (simp add: fl_eval)

lemma lit_0_0: "py_float ''0.0'' = Inr (Fin 0 (- 1074))"
  by (simp add: str_eval parse_eval fl_eval)

lemma lit_450_00: "py_float ''450.00'' = Inr (Fin 7916483719987200 (- 44))"
  by (simp add: str_eval parse_eval fl_eval)

lemma lit_1350_00: "py_float ''1350.00'' = Inr (Fin 5937362789990400 (- 42))"
  by (simp add: str_eval parse_eval fl_eval)

lemma lit_1215_00: "py_float ''1215.00'' = Inr (Fin 5343626510991360 (- 42))"
  by (simp add: str_eval parse_eval fl_eval)

lemma row3_quantity: "float_of_int 3 = Inr (Fin 6755399441055744 (- 51))"
  by (simp add: float_of_int_def fl_eval)

lemma row3_product: "fmul (Fin 6755399441055744 (- 51)) (Fin 7916483719987200 (- 44)) = Fin 5937362789990400 (- 42)"
  by (simp add: fl_eval)

lemma row3_total: "round2 (Fin 5937362789990400 (- 42)) = Fin 5937362789990400 (- 42)"
  by (simp add: fl_eval)

lemma row3_discounted: "fmul (Fin 5937362789990400 (- 42)) (Fin 8106479329266893 (- 53)) = Fin 5343626510991360 (- 42)"
  by (simp add: fl_eval)

lemma row3_final: "round2 (Fin 5343626510991360 (- 42)) = Fin 5343626510991360 (- 42)"
  by (simp add: fl_eval)

lemma lit_75_00: "py_float ''75.00'' = Inr (Fin 5277655813324800 (- 46))"
  by (simp add: str_eval parse_eval fl_eval)

lemma lit_750_00: "py_float ''750.00'' = Inr (Fin 6597069766656000 (- 43))"
  by (simp add: str_eval parse_eval fl_eval)

lemma row4_quantity: "float_of_int 10 = Inr (Fin 5629499534213120 (- 49))"
  by (simp add: float_of_int_def fl_eval)

lemma row4_product: "fmul (Fin 5629499534213120 (- 49)) (Fin 5277655813324800 (- 46)) = Fin 6597069766656000 (- 43)"
  by (simp add: fl_eval)

lemma row4_total: "round2 (Fin 6597069766656000 (- 43)) = Fin 6597069766656000 (- 43)"
  by (simp add: fl_eval)

lemma row4_discounted: "fmul (Fin 6597069766656000 (- 43)) (Fin 4503599627370496 (- 52)) = Fin 6597069766656000 (- 43)"
  by (simp add: fl_eval)

lemma row4_final: "round2 (Fin 6597069766656000 (- 43)) = Fin 6597069766656000 (- 43)"
  by (simp add: fl_eval)

lemma lit_599_99: "py_float ''599.99'' = Inr (Fin 5277567852394578 (- 43))"
  by (simp add: str_eval parse_eval fl_eval)

lemma row5_quantity: "float_of_int 1 = Inr (Fin 4503599627370496 (- 52))"
  by (simp add: float_of_int_def fl_eval)

lemma row5_product: "fmul (Fin 4503599627370496 (- 52)) (Fin 5277567852394578 (- 43)) = Fin 5277567852394578 (- 43)"
  by (simp add: fl_eval)

lemma row5_total: "round2 (Fin 5277567852394578 (- 43)) = Fin 5277567852394578 (- 43)"
  by (simp add: fl_eval)

lemma row5_discounted: "fmul (Fin 5277567852394578 (- 43)) (Fin 4503599627370496 (- 52)) = Fin 5277567852394578 (- 43)"
  by (simp add: fl_eval)

lemma row5_final: "round2 (Fin 5277567852394578 (- 43)) = Fin 5277567852394578 (- 43)"
  by (simp add: fl_eval)

lemma row_body_sample_1:
  "row_body (sample_row ''ORD001'' ''john doe'' ''Laptop'' ''2'' ''899.99'' ''2026-02-15'') = Inr (Some sample_record_1)"
  by (simp add: row_body_def sample_row_def sample_record_1_def float_literal_def Let_def
        str_eval date_eval py_int_def max_str_digits_def lit_0_1 lit_1619_98 lit_1799_98 lit_899_99
        float_0_1_value float_1_value fzero_def one_minus_tenth one_minus_zero
        row1_quantity row1_product row1_total row1_discounted row1_final
      del: fmul.simps fsub.simps round2.simps)

lemma row_body_sample_2:
  "row_body (sample_row ''ORD002'' ''JANE SMITH'' ''Mouse'' ''5'' ''25.50'' ''2026-02-16'') = Inr (Some sample_record_2)"
  by (simp add: row_body_def sample_row_def sample_record_2_def float_literal_def Let_def
        str_eval date_eval py_int_def max_str_digits_def lit_0_0 lit_127_50 lit_25_50
        float_0_1_value float_1_value fzero_def one_minus_tenth one_minus_zero
        row2_quantity row2_product row2_total row2_discounted row2_final
      del: fmul.simps fsub.simps round2.simps)

lemma row_body_sample_3:
  "row_body (sample_row ''ORD003'' ''alice brown'' ''Monitor'' ''3'' ''450.00'' ''2026-02-17'') = Inr (Some sample_record_3)"
  by (simp add: row_body_def sample_row_def sample_record_3_def float_literal_def Let_def
        str_eval date_eval py_int_def max_str_digits_def lit_0_1 lit_1215_00 lit_1350_00 lit_450_00
        float_0_1_value float_1_value fzero_def one_minus_tenth one_minus_zero
        row3_quantity row3_product row3_total row3_discounted row3_final
      del: fmul.simps fsub.simps round2.simps)

lemma row_body_sample_4:
  "row_body (sample_row ''ORD004'' ''bob wilson'' ''Keyboard'' ''10'' ''75.00'' ''2026-02-18'') = Inr (Some sample_record_4)"
  by (simp add: row_body_def sample_row_def sample_record_4_def float_literal_def Let_def
        str_eval date_eval py_int_def max_str_digits_def lit_0_0 lit_750_00 lit_75_00
        float_0_1_value float_1_value fzero_def one_minus_tenth one_minus_zero
        row4_quantity row4_product row4_total row4_discounted row4_final
      del: fmul.simps fsub.simps round2.simps)

lemma row_body_sample_5:
  "row_body (sample_row ''ORD005'' ''john doe'' ''Desk'' ''1'' ''599.99'' ''2026-02-20'') = Inr (Some sample_record_5)"
  by (simp add: row_body_def sample_row_def sample_record_5_def float_literal_def Let_def
        str_eval date_eval py_int_def max_str_digits_def lit_0_0 lit_599_99
        float_0_1_value float_1_value fzero_def one_minus_tenth one_minus_zero
        row5_quantity row5_product row5_total row5_discounted row5_final
      del: fmul.simps fsub.simps round2.simps)

lemma row_body_sample_6:
  "row_body (sample_row ''INVALID'' ''test'' ''Bad'' ''-1'' ''0'' ''2026-02-21'') = Inr None"
  by (simp add: row_body_def sample_row_def Let_def str_eval parse_eval fl_eval)

subsection \<open>A quantity that does not fit a float\<close>

lemma strip_c_unchanged:
  assumes "s \<noteq> []" and "\<not> is_cspace (hd s)" and "\<not> is_cspace (last s)"
  shows "strip_c s = s"
proof -
  from assms(1,2) have front: "dropWhile is_cspace s = s"
    by (cases s) simp_all
  from assms(1,3) have rear: "dropWhile is_cspace (rev s) = rev s"
    by (cases "rev s") (simp_all add: hd_rev)
  show ?thesis by (simp add: strip_c_def front rear)
qed

lemma digit_val_zero: "digit_val (CHR ''0'') = Some 0"
  by (simp add: digit_val_def)

lemma digits_us_zeros:
  assumes "digit_val c = Some d"
  shows "digits_us (c # replicate n (CHR ''0'')) = Some (d # replicate n 0)"
  using assms
proof (induction n arbitrary: c d)
  case 0
  then show ?case by simp
next
  case (Suc n)
  from Suc.IH [OF digit_val_zero]
  have "digits_us (CHR ''0'' # replicate n (CHR ''0'')) = Some (0 # replicate n 0)" .
  with Suc.prems show ?case by simp
qed

lemma foldl_decimal_zeros: "foldl (\<lambda>a d. 10 * a + d) a (replicate n (0::nat)) = a * 10 ^ n"
  by (induction n arbitrary: a) simp_all

lemma py_int_huge_quantity: "py_int huge_quantity = Inr (10 ^ 309)"
proof -
  have "strip_c huge_quantity = huge_quantity"
    by (rule strip_c_unchanged) (simp_all add: huge_quantity_def is_cspace_def last_replicate)
  moreover have "digits_us huge_quantity = Some (1 # replicate 309 0)"
    unfolding huge_quantity_def by (rule digits_us_zeros) (simp add: digit_val_def)
  moreover have "digits_value (1 # replicate 309 0) = 10 ^ 309"
    by (simp add: digits_value_def foldl_decimal_zeros)
  ultimately show ?thesis
    by (simp add: py_int_def huge_quantity_def max_str_digits_def)
qed

lemma lit_1_5: "py_float ''1.5'' = Inr (Fin 6755399441055744 (- 52))"
  by (simp add: str_eval parse_eval fl_eval)

lemma float_of_int_huge: "float_of_int (10 ^ 309) = Inl OverflowError"
  by (simp add: float_of_int_overflow_iff overflow_threshold_def)

lemma huge_row_fields:
  "get_strip huge_row ''order_id'' '''' = Inr ''ORD900''"
  "get_strip huge_row ''customer_name'' ''Unknown'' = Inr ''big buyer''"
  "get_strip huge_row ''product'' '''' = Inr ''Bolt''"
  "get_int huge_row ''quantity'' ''0'' = py_int huge_quantity"
  "get_float huge_row ''price'' ''0'' = py_float ''1.5''"
  "get_strip huge_row ''order_date'' '''' = Inr ''2026-02-22''"
  by (simp_all add: huge_row_def sample_row_def dict_get_def get_strip_def get_int_def
        get_float_def py_strip_def is_space_def)


lemma huge_row_passes: "passes_validation huge_row"
  by (simp add: passes_validation_def huge_row_fields py_int_huge_quantity lit_1_5
        date_eval is_digit_def digit_val_def)

lemma huge_row_does_not_fit: "\<not> quantity_fits huge_row"
  using float_of_int_huge
  by (simp add: quantity_fits_def huge_row_fields py_int_huge_quantity)

lemma sample_row_string_fields: "string_fields (sample_row oid cname pname qty prc odate)"
  by (simp add: string_fields_def is_none_def sample_row_def)





lemma huge_no_name_row_strings: "string_fields huge_no_name_row"
  by (simp add: string_fields_def is_none_def huge_no_name_row_def)

lemma transform_aborts_on:
  assumes "list_all string_fields raw_data"
    and "row \<in> set raw_data" and "passes_validation row" and "\<not> quantity_fits row"
  shows "transform_sales_data raw_data = Inl OverflowError"
proof -
  from assms(2-4) have "\<not> list_all quantity_fits (filter passes_validation raw_data)"
    by (auto simp: list_all_iff)
  with assms(1) show ?thesis
    unfolding transform_sales_data_def by (rule transform_loop_aborts)
qed

lemma flt_gt_not_le: "flt_gt_int x n \<Longrightarrow> \<not> flt_le_int x n"
  by (cases x) auto

lemma get_strip_not_none:
  assumes "\<not> is_none row key"
  shows "\<exists>s. get_strip row key dflt = Inr s"
  using assms
  by (auto simp: is_none_def get_strip_def dict_get_def split: option.splits cell.splits)

lemma valid_record_passes:
  assumes "valid_record row"
    and "\<not> is_none row ''customer_name''" and "\<not> is_none row ''product''"
  shows "passes_validation row"
proof -
  from get_strip_not_none [OF assms(2)] obtain name
    where name: "get_strip row ''customer_name'' ''Unknown'' = Inr name" by blast
  from get_strip_not_none [OF assms(3)] obtain pname
    where pname: "get_strip row ''product'' '''' = Inr pname" by blast
  from assms(1) show ?thesis
    by (auto simp: valid_record_def passes_validation_def name pname
             split: sum.splits dest: flt_gt_not_le)
qed

lemma get_strip_none:
  assumes "is_none row key"
  shows "get_strip row key dflt = Inl AttributeError"
  using assms by (simp add: is_none_def get_strip_def dict_get_def)

lemma valid_record_outcome:
  assumes "valid_record row"
  shows "(\<exists>rec. row_body row = Inr (Some rec)) \<or> row_body row = Inl OverflowError
         \<or> row_body row = Inl AttributeError"
proof (cases "is_none row ''customer_name'' \<or> is_none row ''product''")
  case True
  from assms obtain oid where oid: "get_strip row ''order_id'' '''' = Inr oid"
    by (auto simp: valid_record_def split: sum.splits)
  have "row_body row = Inl AttributeError"
  proof (cases "is_none row ''customer_name''")
    case True
    from get_strip_none [OF this] oid show ?thesis
      by (simp add: row_body_def)
  next
    case False
    with \<open>is_none row ''customer_name'' \<or> is_none row ''product''\<close>
    have "is_none row ''product''" by simp
    from get_strip_none [OF this] have "get_strip row ''product'' '''' = Inl AttributeError" .
    moreover from get_strip_not_none [OF False] obtain name
      where "get_strip row ''customer_name'' ''Unknown'' = Inr name" by blast
    ultimately show ?thesis using oid
      by (simp add: row_body_def)
  qed
  then show ?thesis by simp
next
  case False
  with assms have "passes_validation row"
    by (simp add: valid_record_passes)
  from passes_validation_outcome [OF this] show ?thesis by blast
qed

subsection \<open>A short line of the CSV file\<close>

text \<open>
  For a line with fewer cells than the header, \<open>csv.DictReader\<close> fills the missing cells
  with \<open>None\<close>. The row body then raises \<open>AttributeError\<close> at the first \<open>strip\<close> of a \<open>None\<close>,
  which the handler does not catch: the batch is lost, with the records of the rows
  before it.
\<close>

lemma row_body_short_row: "row_body short_row = Inl AttributeError"
  by (simp add: row_body_def short_row_def get_strip_def dict_get_def)

lemma short_row_not_strings: "\<not> string_fields short_row"
  by (simp add: string_fields_def is_none_def short_row_def)

subsection \<open>Rows on the thresholds\<close>

lemma lit_100: "py_float ''100'' = Inr (Fin 7036874417766400 (- 46))"
  by (simp add: str_eval parse_eval fl_eval)

lemma lit_1000: "py_float ''1000'' = Inr (Fin 8796093022208000 (- 43))"
  by (simp add: str_eval parse_eval fl_eval)

lemma boundary_1000_quantity: "float_of_int 10 = Inr (Fin 5629499534213120 (- 49))"
  by (simp add: float_of_int_def fl_eval)

lemma boundary_1000_product: "fmul (Fin 5629499534213120 (- 49)) (Fin 7036874417766400 (- 46)) = Fin 8796093022208000 (- 43)"
  by (simp add: fl_eval)

lemma boundary_1000_total: "round2 (Fin 8796093022208000 (- 43)) = Fin 8796093022208000 (- 43)"
  by (simp add: fl_eval)

lemma boundary_1000_discounted: "fmul (Fin 8796093022208000 (- 43)) (Fin 4503599627370496 (- 52)) = Fin 8796093022208000 (- 43)"
  by (simp add: fl_eval)

lemma boundary_1000_final: "round2 (Fin 8796093022208000 (- 43)) = Fin 8796093022208000 (- 43)"
  by (simp add: fl_eval)

lemma lit_500: "py_float ''500'' = Inr (Fin 8796093022208000 (- 44))"
  by (simp add: str_eval parse_eval fl_eval)

lemma boundary_500_quantity: "float_of_int 1 = Inr (Fin 4503599627370496 (- 52))"
  by (simp add: float_of_int_def fl_eval)

lemma boundary_500_product: "fmul (Fin 4503599627370496 (- 52)) (Fin 8796093022208000 (- 44)) = Fin 8796093022208000 (- 44)"
  by (simp add: fl_eval)

lemma boundary_500_total: "round2 (Fin 8796093022208000 (- 44)) = Fin 8796093022208000 (- 44)"
  by (simp add: fl_eval)

lemma boundary_500_discounted: "fmul (Fin 8796093022208000 (- 44)) (Fin 4503599627370496 (- 52)) = Fin 8796093022208000 (- 44)"
  by (simp add: fl_eval)

lemma boundary_500_final: "round2 (Fin 8796093022208000 (- 44)) = Fin 8796093022208000 (- 44)"
  by (simp add: fl_eval)

lemma lit_2_5: "py_float ''2.5'' = Inr (Fin 5629499534213120 (- 51))"
  by (simp add: str_eval parse_eval fl_eval)







lemma row_body_boundary_1000: "row_body boundary_1000_row = Inr (Some boundary_1000_record)"
  by (simp add: row_body_def boundary_1000_row_def sample_row_def boundary_1000_record_def float_literal_def Let_def
        str_eval date_eval py_int_def max_str_digits_def lit_0_0 lit_100 lit_1000
        float_0_1_value float_1_value fzero_def one_minus_tenth one_minus_zero
        boundary_1000_quantity boundary_1000_product boundary_1000_total boundary_1000_discounted boundary_1000_final
      del: fmul.simps fsub.simps round2.simps)

lemma row_body_boundary_500: "row_body boundary_500_row = Inr (Some boundary_500_record)"
  by (simp add: row_body_def boundary_500_row_def sample_row_def boundary_500_record_def float_literal_def Let_def
        str_eval date_eval py_int_def max_str_digits_def lit_0_0 lit_500
        float_0_1_value float_1_value fzero_def one_minus_tenth one_minus_zero
        boundary_500_quantity boundary_500_product boundary_500_total boundary_500_discounted boundary_500_final
      del: fmul.simps fsub.simps round2.simps)


subsection \<open>What an appended record satisfies\<close>

lemma row_body_derived:
  assumes "row_body row = Inr (Some rec)"
  shows "discount_rate rec = (if flt_gt_int (total_amount rec) 1000 then float_0_1 else fzero)"
    and "final_amount rec = round2 (fmul (total_amount rec) (fsub float_1 (discount_rate rec)))"
    and "category rec = (if flt_ge_int (final_amount rec) 500 then ''High Value'' else ''Standard'')"
  using assms
  by (auto simp: row_body_def Let_def split: sum.splits if_splits)

lemma row_body_None:
  assumes "row_body row = Inr None"
  shows "\<not> passes_validation row"
proof
  assume pass: "passes_validation row"
  show False
  proof (cases "quantity_fits row")
    case True
    from row_body_accepts [OF pass True] assms show False by auto
  next
    case False
    from row_body_overflow [OF pass False] assms show False by simp
  qed
qed

lemma transform_members:
  assumes "transform_sales_data raw_data = Inr out" and "rec \<in> set out"
  shows "\<exists>row \<in> set raw_data. row_body row = Inr (Some rec)"
  using transform_loop_members [of raw_data "[]" out rec] assms
  by (simp add: transform_sales_data_def)


lemma transform_result:
  assumes "transform_sales_data raw_data = Inr out"
  shows "list_all2 from_row (filter passes_validation raw_data) out"
  using transform_loop_result [of raw_data "[]" out] assms
  by (simp add: transform_sales_data_def)




lemma float_literal_0_1: "float_literal ''0.1'' = float_0_1"
  by (simp add: float_literal_def lit_0_1 float_0_1_value)

lemma float_literal_0_0: "float_literal ''0.0'' = fzero"
  by (simp add: float_literal_def lit_0_0 fzero_def)

lemma float_0_1_not_zero: "float_0_1 \<noteq> fzero"
  by (simp add: float_0_1_value fzero_def)

lemma transform_length:
  assumes "transform_sales_data raw_data = Inr out"
  shows "length out = length raw_data - length (filter (\<lambda>row. \<not> passes_validation row) raw_data)"
proof -
  from transform_result [OF assms]
  have "length out = length (filter passes_validation raw_data)"
    by (simp add: list_all2_lengthD)
  moreover have "length (filter passes_validation raw_data)
      + length (filter (\<lambda>row. \<not> passes_validation row) raw_data) = length raw_data"
    by (rule sum_length_filter_compl)
  ultimately show ?thesis by simp
qed

lemma transform_rejected_absent:
  assumes "transform_sales_data raw_data = Inr out" and "rec \<in> set out"
  shows "\<exists>row \<in> set raw_data. passes_validation row \<and> from_row row rec"
proof -
  from transform_members [OF assms] obtain row
    where "row \<in> set raw_data" and "row_body row = Inr (Some rec)" by blast
  with row_body_Some [of row rec] show ?thesis by blast
qed



lemma none_name_row_valid: "valid_record none_name_row"
  by (simp add: valid_record_def none_name_row_def str_eval py_int_def max_str_digits_def
        lit_2_5 date_eval)

lemma row_body_none_name: "row_body none_name_row = Inl AttributeError"
  by (simp add: row_body_def none_name_row_def get_strip_def dict_get_def)

lemma transform_sample_rows:
  "transform_sales_data sample_rows =
     Inr [sample_record_1, sample_record_2, sample_record_3, sample_record_4, sample_record_5]"
  by (simp add: transform_sales_data_def sample_rows_def row_body_sample_1
        row_body_sample_2 row_body_sample_3 row_body_sample_4 row_body_sample_5
        row_body_sample_6)

lemma short_row_aborts_batch:
  "transform_sales_data (sample_rows @ [short_row]) = Inl AttributeError"
  using transform_loop_none_aborts [of short_row AttributeError sample_rows "[]" _ "[]"]
    row_body_short_row transform_sample_rows
  by (simp add: transform_sales_data_def)

lemma none_name_aborts_batch:
  "transform_sales_data (sample_rows @ [none_name_row]) = Inl AttributeError"
  using transform_loop_none_aborts [of none_name_row AttributeError sample_rows "[]" _ "[]"]
    row_body_none_name transform_sample_rows
  by (simp add: transform_sales_data_def)

subsection \<open>Names\<close>




lemma py_title_garcia:
  "py_title [CHR ''g'', CHR ''a'', CHR ''r'', CHR ''c'', char_of (237 :: nat), CHR ''a'']
     = [71, 97, 114, 99, 237, 97]"
  by (simp add: str_eval)

section \<open>Properties of the loaders and the extractors\<close>

lemma ensure_dataset_result:
  "ensure_dataset dataset_id w =
     (Inr (), if dataset_id \<in> set (datasets w) then w
              else w\<lparr>datasets := datasets w @ [dataset_id]\<rparr>)"
  by (simp add: ensure_dataset_def get_dataset_def create_dataset_def)

lemma ensure_table_result:
  assumes "fst table_ref \<in> set (datasets w)"
  shows "ensure_table table_ref w =
     (Inr (), if table_ref \<in> set (tables w) then w
              else w\<lparr>tables := tables w @ [table_ref]\<rparr>)"
  using assms by (simp add: ensure_table_def get_table_def create_table_def)

lemma ensure_table_present:
  assumes "table_ref \<in> set (tables w)"
  shows "ensure_table table_ref w = (Inr (), w)"
  using assms by (simp add: ensure_table_def get_table_def)

lemma count_list_ensured:
  "count_list (if x \<in> set xs then xs else xs @ [x]) x = max 1 (count_list xs x)"
proof (cases "x \<in> set xs")
  case True
  then have "0 < count_list xs x"
    using count_list_0_iff [of xs x] by simp
  with True show ?thesis by simp
next
  case False
  then have "count_list xs x = 0"
    by (simp add: count_list_0_iff)
  with False show ?thesis by simp
qed

lemma stamp_all_loaded_at:
  "list_all (\<lambda>r. loaded_at r = Some t) (stamp_all t data)"
  by (simp add: stamp_all_def list_all_iff)

lemma stamp_all_columns: "map columns (stamp_all t data) = map columns data"
  by (simp add: stamp_all_def)

lemma load_to_bigquery_result:
  "load_to_bigquery env data project_id dataset_id table_id w =
     (let w1 = (if dataset_id \<in> set (datasets w) then w
                else w\<lparr>datasets := datasets w @ [dataset_id]\<rparr>);
          w2 = (if (dataset_id, table_id) \<in> set (tables w1) then w1
                else w1\<lparr>tables := tables w1 @ [(dataset_id, table_id)]\<rparr>);
          w3 = w2\<lparr>clock_reads := clock_reads w2 + 1\<rparr>;
          data1 = stamp_all (clock env (clock_reads w)) data;
          w4 = w3\<lparr>table_rows := (table_rows w3)((dataset_id, table_id) :=
                       table_rows w3 (dataset_id, table_id) @ data1)\<rparr>
      in if \<not> load_job_ok env then (Inl LoadJobFailed, data1, w3)
         else if \<not> query_ok env then (Inl QueryFailed, data1, w4)
         else (Inr (), data1, w4))"
proof -
  define w1 where "w1 = (if dataset_id \<in> set (datasets w) then w
                else w\<lparr>datasets := datasets w @ [dataset_id]\<rparr>)"
  have d: "ensure_dataset dataset_id w = (Inr (), w1)"
    by (simp add: ensure_dataset_result w1_def)
  have in1: "fst (dataset_id, table_id) \<in> set (datasets w1)"
    by (simp add: w1_def)
  define w2 where "w2 = (if (dataset_id, table_id) \<in> set (tables w1) then w1
                else w1\<lparr>tables := tables w1 @ [(dataset_id, table_id)]\<rparr>)"
  have t: "ensure_table (dataset_id, table_id) w1 = (Inr (), w2)"
    using ensure_table_result [OF in1] by (simp add: w2_def)
  have in2: "dataset_id \<in> set (datasets w2)" "(dataset_id, table_id) \<in> set (tables w2)"
    and clk: "clock_reads w2 = clock_reads w"
    by (simp_all add: w2_def w1_def)
  have main: "load_to_bigquery env data project_id dataset_id table_id w =
     (let w3 = w2\<lparr>clock_reads := clock_reads w2 + 1\<rparr>;
          data1 = stamp_all (clock env (clock_reads w)) data;
          w4 = w3\<lparr>table_rows := (table_rows w3)((dataset_id, table_id) :=
                       table_rows w3 (dataset_id, table_id) @ data1)\<rparr>
      in if \<not> load_job_ok env then (Inl LoadJobFailed, data1, w3)
         else if \<not> query_ok env then (Inl QueryFailed, data1, w4)
         else (Inr (), data1, w4))"
    by (simp add: load_to_bigquery_def d t utcnow_def load_table_from_json_def
          run_report_def Let_def in2 clk)
  show ?thesis
    unfolding main by (simp add: Let_def w1_def w2_def)
qed

lemma stamp_each_result:
  "stamp_each env rows w =
     (map (\<lambda>(i, r). r\<lparr>loaded_at := Some (clock env (clock_reads w + i))\<rparr>)
          (zip [0..<length rows] rows),
      w\<lparr>clock_reads := clock_reads w + length rows\<rparr>)"
proof (induction rows arbitrary: w)
  case Nil
  then show ?case by simp
next
  case (Cons r rows)
  have shift: "zip [0..<Suc (length rows)] (r # rows)
      = (0, r) # map (\<lambda>(i, x). (Suc i, x)) (zip [0..<length rows] rows)"
    by (simp add: upt_conv_Cons map_Suc_upt [symmetric] zip_map1 del: upt_Suc)
  show ?case
    by (simp add: utcnow_def Cons.IH shift o_def case_prod_unfold del: upt_Suc)
qed

lemma extract_sales_data_closes:
  "open_handles (snd (extract_sales_data env csv_path w)) = open_handles w"
  by (simp add: extract_sales_data_def Let_def)

section \<open>The claims\<close>




text \<open>
  Claim C2. Every record in the output of \<open>transform_sales_data\<close> has the discount rate
  \<open>0.1\<close> if its \<open>total_amount\<close> is greater than 1000 and \<open>0.0\<close> otherwise; the rate is
  \<open>0.1\<close> exactly when the total is greater than 1000; a total of exactly 1000 gets \<open>0.0\<close>.
\<close>

theorem C2_discount_rate:
  assumes "transform_sales_data raw_data = Inr out" and "rec \<in> set out"
  shows "discount_rate rec =
           (if flt_gt_int (total_amount rec) 1000 then float_literal ''0.1''
            else float_literal ''0.0'')
         \<and> (discount_rate rec = float_literal ''0.1'') = flt_gt_int (total_amount rec) 1000
         \<and> (total_amount rec = float_literal ''1000''
              \<longrightarrow> discount_rate rec = float_literal ''0.0'')"
proof -
  from transform_members [OF assms] obtain row
    where "row_body row = Inr (Some rec)" by blast
  from row_body_derived(1) [OF this]
  have rate: "discount_rate rec =
      (if flt_gt_int (total_amount rec) 1000 then float_literal ''0.1''
       else float_literal ''0.0'')"
    by (simp add: float_literal_0_1 float_literal_0_0)
  have differ: "float_literal ''0.1'' \<noteq> float_literal ''0.0''"
    using float_0_1_not_zero by (simp add: float_literal_0_1 float_literal_0_0)
  have thousand: "\<not> flt_gt_int (float_literal ''1000'') 1000"
    by (simp add: float_literal_def lit_1000)
  from rate differ thousand show ?thesis by auto
qed

theorem C2_witness:
  "transform_sales_data [boundary_1000_row] = Inr [boundary_1000_record]
   \<and> total_amount boundary_1000_record = float_literal ''1000''
   \<and> discount_rate boundary_1000_record = float_literal ''0.0''
   \<and> \<not> flt_gt_int (total_amount boundary_1000_record) 1000"
proof -
  have run: "transform_sales_data [boundary_1000_row] = Inr [boundary_1000_record]"
    by (simp add: transform_sales_data_def row_body_boundary_1000)
  have mem: "boundary_1000_record \<in> set [boundary_1000_record]"
    by simp
  have total: "total_amount boundary_1000_record = float_literal ''1000''"
    by (simp add: boundary_1000_record_def)
  have differ: "float_literal ''0.0'' \<noteq> float_literal ''0.1''"
    using float_0_1_not_zero by (simp add: float_literal_0_1 float_literal_0_0)
  note claim = C2_discount_rate [OF run mem]
  from claim total have rate: "discount_rate boundary_1000_record = float_literal ''0.0''"
    by blast
  from claim rate differ have "\<not> flt_gt_int (total_amount boundary_1000_record) 1000"
    by auto
  with run total rate show ?thesis by blast
qed

text \<open>
  Claim C3. Every record in the output of \<open>transform_sales_data\<close> has
  \<open>final_amount = round(total_amount * (1 - discount_rate), 2)\<close>, and its category is
  \<open>High Value\<close> if that amount is at least 500 and \<open>Standard\<close> otherwise; the category is
  \<open>High Value\<close> exactly when the amount is at least 500; an amount of exactly 500 is
  \<open>High Value\<close>.
\<close>

theorem C3_category:
  assumes "transform_sales_data raw_data = Inr out" and "rec \<in> set out"
  shows "final_amount rec = round2 (fmul (total_amount rec) (fsub float_1 (discount_rate rec)))
         \<and> category rec =
             (if flt_ge_int (final_amount rec) 500 then ''High Value'' else ''Standard'')
         \<and> (category rec = ''High Value'') = flt_ge_int (final_amount rec) 500
         \<and> (final_amount rec = float_literal ''500'' \<longrightarrow> category rec = ''High Value'')"
proof -
  from transform_members [OF assms] obtain row
    where row: "row_body row = Inr (Some rec)" by blast
  have five_hundred: "flt_ge_int (float_literal ''500'') 500"
    by (simp add: float_literal_def lit_500)
  from row_body_derived(2,3) [OF row] five_hundred show ?thesis by auto
qed

theorem C3_witness:
  "transform_sales_data [boundary_500_row] = Inr [boundary_500_record]
   \<and> final_amount boundary_500_record = float_literal ''500''
   \<and> category boundary_500_record = ''High Value''
   \<and> flt_ge_int (final_amount boundary_500_record) 500"
proof -
  have run: "transform_sales_data [boundary_500_row] = Inr [boundary_500_record]"
    by (simp add: transform_sales_data_def row_body_boundary_500)
  have mem: "boundary_500_record \<in> set [boundary_500_record]"
    by simp
  have final: "final_amount boundary_500_record = float_literal ''500''"
    by (simp add: boundary_500_record_def)
  note claim = C3_category [OF run mem]
  from claim final have cat: "category boundary_500_record = ''High Value''"
    by blast
  from claim cat have "flt_ge_int (final_amount boundary_500_record) 500"
    by blast
  with run final cat show ?thesis by blast
qed

text \<open>
  Claim C4 fails on the code. A row whose quantity is too large for a float passes the
  checks and then raises \<open>OverflowError\<close> in \<open>quantity * price\<close>; the handler catches only
  \<open>ValueError\<close> and \<open>KeyError\<close>, so \<open>transform_sales_data\<close> aborts: on the row alone, and
  after the six sample rows, whose five records are lost with it.
\<close>

theorem C4_oversized_quantity_aborts:
  "row_body huge_row = Inl OverflowError
   \<and> transform_sales_data [huge_row] = Inl OverflowError
   \<and> transform_sales_data (sample_rows @ [huge_row]) = Inl OverflowError"
proof -
  have body: "row_body huge_row = Inl OverflowError"
    using huge_row_passes huge_row_does_not_fit by (rule row_body_overflow)
  have "list_all string_fields [huge_row]"
    by (simp add: huge_row_def sample_row_string_fields)
  then have alone: "transform_sales_data [huge_row] = Inl OverflowError"
    using _ huge_row_passes huge_row_does_not_fit by (rule transform_aborts_on) simp
  have "list_all string_fields (sample_rows @ [huge_row])"
    by (simp add: sample_rows_def huge_row_def sample_row_string_fields)
  then have "transform_sales_data (sample_rows @ [huge_row]) = Inl OverflowError"
    using _ huge_row_passes huge_row_does_not_fit by (rule transform_aborts_on) simp
  with body alone show ?thesis by simp
qed

text \<open>
  Claim C5, as it holds on the code. In the CSV pipeline \<open>load_to_bigquery\<close> reads the clock
  once, after the dataset and the table are ensured, and gives that one reading to every
  record of the batch; the records it loads are the stamped batch; the records that
  \<open>transform_sales_data\<close> hands over carry no stamp. In the hardcoded pipeline the transform
  step reads the clock once per row: row number \<open>i\<close> of the batch gets reading number \<open>i\<close>.
\<close>

theorem C5_one_reading_for_the_batch_in_load_to_bigquery:
  "(case load_to_bigquery env data project_id dataset_id table_id w of
      (outcome, data1, w1) \<Rightarrow>
        data1 = stamp_all (clock env (clock_reads w)) data
        \<and> list_all (\<lambda>r. loaded_at r = Some (clock env (clock_reads w))) data1
        \<and> map columns data1 = map columns data
        \<and> clock_reads w1 = clock_reads w + 1
        \<and> (outcome = Inr () \<longrightarrow>
             table_rows w1 (dataset_id, table_id)
               = table_rows w (dataset_id, table_id) @ data1))
   \<and> list_all (\<lambda>r. loaded_at r = None) (map unstamped transformed)
   \<and> (case stamp_each env rows v of
         (rows1, v1) \<Rightarrow>
           map loaded_at rows1
             = map (\<lambda>i. Some (clock env (clock_reads v + i))) [0..<length rows]
           \<and> clock_reads v1 = clock_reads v + length rows)"
proof -
  have loader: "case load_to_bigquery env data project_id dataset_id table_id w of
      (outcome, data1, w1) \<Rightarrow>
        data1 = stamp_all (clock env (clock_reads w)) data
        \<and> list_all (\<lambda>r. loaded_at r = Some (clock env (clock_reads w))) data1
        \<and> map columns data1 = map columns data
        \<and> clock_reads w1 = clock_reads w + 1
        \<and> (outcome = Inr () \<longrightarrow>
             table_rows w1 (dataset_id, table_id)
               = table_rows w (dataset_id, table_id) @ data1)"
    by (simp add: load_to_bigquery_result Let_def stamp_all_loaded_at stamp_all_columns)
  have transform: "list_all (\<lambda>r. loaded_at r = None) (map unstamped transformed)"
    by (simp add: list_all_iff unstamped_def)
  have "map fst (zip [0..<length rows] rows) = [0..<length rows]"
    by simp
  then have "map (\<lambda>x. Some (clock env (clock_reads v + fst x))) (zip [0..<length rows] rows)
        = map (\<lambda>i. Some (clock env (clock_reads v + i))) [0..<length rows]"
    using map_map [of "\<lambda>i. Some (clock env (clock_reads v + i))" fst "zip [0..<length rows] rows"]
    by (simp add: o_def)
  then have per_row: "case stamp_each env rows v of
         (rows1, v1) \<Rightarrow>
           map loaded_at rows1
             = map (\<lambda>i. Some (clock env (clock_reads v + i))) [0..<length rows]
           \<and> clock_reads v1 = clock_reads v + length rows"
    by (simp add: stamp_each_result case_prod_unfold o_def)
  from loader transform per_row show ?thesis by blast
qed

theorem C5_witness:
  "fst (load_to_bigquery tick_env [unstamped sample_record_1, unstamped sample_record_2]
          ''your-project-id'' ''sales_data'' ''sales'' empty_world) = Inr ()
   \<and> map loaded_at
        (table_rows
           (snd (snd (load_to_bigquery tick_env
                        [unstamped sample_record_1, unstamped sample_record_2]
                        ''your-project-id'' ''sales_data'' ''sales'' empty_world)))
           (''sales_data'', ''sales''))
       = [Some (ticking_clock 0), Some (ticking_clock 0)]"
proof -
  have ok: "fst (load_to_bigquery tick_env [unstamped sample_record_1, unstamped sample_record_2]
          ''your-project-id'' ''sales_data'' ''sales'' empty_world) = Inr ()"
    by (simp add: load_to_bigquery_result Let_def tick_env_def)
  from C5_one_reading_for_the_batch_in_load_to_bigquery
         [where env = tick_env
            and data = "[unstamped sample_record_1, unstamped sample_record_2]"
            and project_id = "''your-project-id''" and dataset_id = "''sales_data''"
            and table_id = "''sales''" and w = empty_world
            and transformed = "[] :: enriched list" and rows = "[] :: unit row list"
            and v = "empty_world :: unit world"] ok
  show ?thesis
    by (simp add: case_prod_unfold stamp_all_def unstamped_def tick_env_def empty_world_def)
qed

text \<open>
  Claim C5 as stated fails on the hardcoded pipeline: with a clock that advances between
  two readings, the three records of one batch of \<open>etl_to_bigquery\<close> carry three different
  values of \<open>loaded_at\<close>, assigned row by row in the transform step.
\<close>

theorem C5_counterexample:
  "fst (etl_to_bigquery tick_env sales_world) = Inr ()
   \<and> map loaded_at (fst (snd (etl_to_bigquery tick_env sales_world)))
       = [Some ''2026-02-15T10:00:00.000000'', Some ''2026-02-15T10:00:00.000001'',
          Some ''2026-02-15T10:00:00.000002'']
   \<and> table_rows (snd (snd (etl_to_bigquery tick_env sales_world))) (''sales_data'', ''sales'')
       = fst (snd (etl_to_bigquery tick_env sales_world))"
  by (simp add: etl_to_bigquery_def sales_data_def stamp_each_result load_table_from_json_def
        tick_env_def sales_world_def ticking_clock_def digit_char_def unstamped_def
        upt_rec [of 0] upt_rec [of 1] upt_rec [of 2] upt_rec [of 3])

text \<open>
  Claim C6. The transform of the six sample rows is the list of the five expected
  records: the row with quantity -1 is skipped, \<open>ORD001\<close> gets the total 1799.98, the
  rate 0.1, the final amount 1619.98 and \<open>High Value\<close>, \<open>ORD002\<close> gets 127.50, 0.0, 127.50
  and \<open>Standard\<close>.
\<close>

theorem C6_sample_run:
  "transform_sales_data sample_rows =
     Inr [sample_record_1, sample_record_2, sample_record_3, sample_record_4, sample_record_5]
   \<and> length sample_rows = 6
   \<and> order_id sample_record_1 = ''ORD001''
   \<and> total_amount sample_record_1 = float_literal ''1799.98''
   \<and> discount_rate sample_record_1 = float_literal ''0.1''
   \<and> final_amount sample_record_1 = float_literal ''1619.98''
   \<and> category sample_record_1 = ''High Value''
   \<and> order_id sample_record_2 = ''ORD002''
   \<and> total_amount sample_record_2 = float_literal ''127.50''
   \<and> discount_rate sample_record_2 = float_literal ''0.0''
   \<and> final_amount sample_record_2 = float_literal ''127.50''
   \<and> category sample_record_2 = ''Standard''"
proof -
  have "transform_sales_data sample_rows =
     Inr [sample_record_1, sample_record_2, sample_record_3, sample_record_4, sample_record_5]"
    by (simp add: transform_sales_data_def sample_rows_def row_body_sample_1
          row_body_sample_2 row_body_sample_3 row_body_sample_4 row_body_sample_5
          row_body_sample_6)
  moreover have "length sample_rows = 6"
    by (simp add: sample_rows_def)
  ultimately show ?thesis
    by (simp add: sample_record_1_def sample_record_2_def)
qed

text \<open>
  Claim C7. From any state of the destination, the two ensure steps succeed, and a second
  run of them succeeds and changes nothing; the dataset and the table are then held as
  often as before, and once if they were absent (so exactly once in a destination that
  held no duplicate); a step whose resource exists is a no-op.
\<close>

theorem C7_ensure_steps_idempotent:
  "(case ensure_dataset dataset_id w of
      (r1, w1) \<Rightarrow>
        (case ensure_table (dataset_id, table_id) w1 of
           (r2, w2) \<Rightarrow>
             r1 = Inr () \<and> r2 = Inr ()
             \<and> ensure_dataset dataset_id w2 = (Inr (), w2)
             \<and> ensure_table (dataset_id, table_id) w2 = (Inr (), w2)
             \<and> count_list (datasets w2) dataset_id = max 1 (count_list (datasets w) dataset_id)
             \<and> count_list (tables w2) (dataset_id, table_id)
                 = max 1 (count_list (tables w) (dataset_id, table_id))))
   \<and> (dataset_id \<in> set (datasets w) \<longrightarrow> ensure_dataset dataset_id w = (Inr (), w))
   \<and> (table_ref \<in> set (tables w) \<longrightarrow> ensure_table table_ref w = (Inr (), w))"
proof -
  define w1 where "w1 = (if dataset_id \<in> set (datasets w) then w
                else w\<lparr>datasets := datasets w @ [dataset_id]\<rparr>)"
  define w2 where "w2 = (if (dataset_id, table_id) \<in> set (tables w1) then w1
                else w1\<lparr>tables := tables w1 @ [(dataset_id, table_id)]\<rparr>)"
  have d: "ensure_dataset dataset_id w = (Inr (), w1)"
    by (simp add: ensure_dataset_result w1_def)
  have "fst (dataset_id, table_id) \<in> set (datasets w1)"
    by (simp add: w1_def)
  from ensure_table_result [OF this]
  have t: "ensure_table (dataset_id, table_id) w1 = (Inr (), w2)"
    by (simp add: w2_def)
  have in2: "dataset_id \<in> set (datasets w2)" "(dataset_id, table_id) \<in> set (tables w2)"
    by (simp_all add: w2_def w1_def)
  have d2: "ensure_dataset dataset_id w2 = (Inr (), w2)"
    using in2(1) by (simp add: ensure_dataset_result)
  have t2: "ensure_table (dataset_id, table_id) w2 = (Inr (), w2)"
    using in2(2) by (rule ensure_table_present)
  have "datasets w2 = (if dataset_id \<in> set (datasets w) then datasets w
                       else datasets w @ [dataset_id])"
    by (simp add: w2_def w1_def)
  then have cd: "count_list (datasets w2) dataset_id = max 1 (count_list (datasets w) dataset_id)"
    using count_list_ensured [of dataset_id "datasets w"] by simp
  have "tables w2 = (if (dataset_id, table_id) \<in> set (tables w) then tables w
                     else tables w @ [(dataset_id, table_id)])"
    by (simp add: w2_def w1_def)
  then have ct: "count_list (tables w2) (dataset_id, table_id)
      = max 1 (count_list (tables w) (dataset_id, table_id))"
    using count_list_ensured [of "(dataset_id, table_id)" "tables w"] by simp
  have nd: "dataset_id \<in> set (datasets w) \<longrightarrow> ensure_dataset dataset_id w = (Inr (), w)"
    by (simp add: ensure_dataset_result)
  have nt: "table_ref \<in> set (tables w) \<longrightarrow> ensure_table table_ref w = (Inr (), w)"
    by (simp add: ensure_table_present)
  from d t d2 t2 cd ct nd nt show ?thesis by simp
qed

theorem C7_witness:
  "ensure_dataset ''sales_data'' (empty_world :: unit world)
     = (Inr (), empty_world\<lparr>datasets := [''sales_data'']\<rparr>)
   \<and> ensure_table (''sales_data'', ''sales'') (empty_world\<lparr>datasets := [''sales_data'']\<rparr>)
     = (Inr (), (sales_world :: unit world))
   \<and> ''sales_data'' \<in> set (datasets (sales_world :: unit world))
   \<and> (''sales_data'', ''sales'') \<in> set (tables (sales_world :: unit world))
   \<and> ensure_dataset ''sales_data'' (sales_world :: unit world) = (Inr (), sales_world)
   \<and> ensure_table (''sales_data'', ''sales'') (sales_world :: unit world) = (Inr (), sales_world)
   \<and> count_list (datasets (sales_world :: unit world)) ''sales_data'' = 1
   \<and> count_list (tables (sales_world :: unit world)) (''sales_data'', ''sales'') = 1"
proof -
  have present: "''sales_data'' \<in> set (datasets (sales_world :: unit world))"
    "(''sales_data'', ''sales'') \<in> set (tables (sales_world :: unit world))"
    by (simp_all add: sales_world_def)
  have first: "ensure_dataset ''sales_data'' (empty_world :: unit world)
     = (Inr (), empty_world\<lparr>datasets := [''sales_data'']\<rparr>)"
    "ensure_table (''sales_data'', ''sales'') (empty_world\<lparr>datasets := [''sales_data'']\<rparr>)
     = (Inr (), (sales_world :: unit world))"
    by (simp_all add: ensure_dataset_def get_dataset_def create_dataset_def ensure_table_def
          get_table_def create_table_def empty_world_def sales_world_def)
  have counts: "count_list (datasets (sales_world :: unit world)) ''sales_data'' = 1"
    "count_list (tables (sales_world :: unit world)) (''sales_data'', ''sales'') = 1"
    by (simp_all add: sales_world_def)
  from C7_ensure_steps_idempotent
         [where dataset_id = "''sales_data''" and w = "sales_world :: unit world"
            and table_id = "''sales''" and table_ref = "(''sales_data'', ''sales'')"]
       present
  have "ensure_dataset ''sales_data'' (sales_world :: unit world) = (Inr (), sales_world)"
    and "ensure_table (''sales_data'', ''sales'') (sales_world :: unit world) = (Inr (), sales_world)"
    by simp_all
  with present first counts show ?thesis by simp
qed

text \<open>
  Claim C8 fails on the MSSQL script. When \<open>pyodbc.connect\<close> has succeeded and
  \<open>pd.read_sql\<close> raises, the exception leaves the script before \<open>conn.close()\<close>: the
  connection is still open when the failure propagates. (The CSV extractor, whose file is
  opened by a \<open>with\<close> statement, closes it on every path.)
\<close>

theorem C8_connection_left_open_when_read_fails:
  "extract_mssql read_fails_env (empty_world :: unit world)
     = (Inl ReadFailed, empty_world\<lparr>open_handles := [''conn'']\<rparr>)
   \<and> open_handles (snd (extract_mssql read_fails_env (empty_world :: unit world))) = [''conn'']"
  by (simp add: extract_mssql_def read_fails_env_def empty_world_def)

text \<open>
  Claim C9. If the load job succeeds and the report query fails, \<open>load_to_bigquery\<close> raises
  the error of the query, and the stamped batch is appended to the table all the same;
  \<open>run_etl_pipeline\<close>, which does not handle the error, fails with it.
\<close>

theorem C9_report_failure_fails_the_run:
  assumes "load_job_ok env" and "\<not> query_ok env"
  shows "(case load_to_bigquery env data project_id dataset_id table_id w of
            (outcome, data1, w1) \<Rightarrow>
              outcome = Inl QueryFailed
              \<and> data1 = stamp_all (clock env (clock_reads w)) data
              \<and> table_rows w1 (dataset_id, table_id)
                  = table_rows w (dataset_id, table_id) @ data1)
         \<and> (file_opens cenv \<and> csv_read cenv = Inr raw_data
              \<and> transform_sales_data raw_data = Inr transformed
              \<longrightarrow> fst (run_etl_pipeline cenv env csv_path project_id dataset_id table_id v)
                    = Inl QueryFailed)"
proof -
  have loader: "case load_to_bigquery env data project_id dataset_id table_id w of
            (outcome, data1, w1) \<Rightarrow>
              outcome = Inl QueryFailed
              \<and> data1 = stamp_all (clock env (clock_reads w)) data
              \<and> table_rows w1 (dataset_id, table_id)
                  = table_rows w (dataset_id, table_id) @ data1"
    using assms by (simp add: load_to_bigquery_result Let_def)
  have "fst (run_etl_pipeline cenv env csv_path project_id dataset_id table_id v)
          = Inl QueryFailed"
    if "file_opens cenv" and "csv_read cenv = Inr raw_data"
      and "transform_sales_data raw_data = Inr transformed"
    using that assms
    by (simp add: run_etl_pipeline_def extract_sales_data_def Let_def
          load_to_bigquery_result)
  with loader show ?thesis by blast
qed

theorem C9_witness:
  "load_job_ok report_fails_env \<and> \<not> query_ok report_fails_env
   \<and> fst (load_to_bigquery report_fails_env [unstamped sample_record_1]
            ''your-project-id'' ''sales_data'' ''sales'' sales_world) = Inl QueryFailed
   \<and> table_rows (snd (snd (load_to_bigquery report_fails_env [unstamped sample_record_1]
            ''your-project-id'' ''sales_data'' ''sales'' sales_world))) (''sales_data'', ''sales'')
       = [\<lparr>columns = sample_record_1, loaded_at = Some (ticking_clock 0)\<rparr>]
   \<and> fst (run_etl_pipeline sample_csv_env report_fails_env ''sales_data.csv''
            ''your-project-id'' ''sales_data'' ''sales'' sales_world) = Inl QueryFailed"
proof -
  have env: "load_job_ok report_fails_env" "\<not> query_ok report_fails_env"
    by (simp_all add: report_fails_env_def)
  have src: "file_opens sample_csv_env" "csv_read sample_csv_env = Inr sample_rows"
    by (simp_all add: sample_csv_env_def)
  have tr: "transform_sales_data sample_rows =
     Inr [sample_record_1, sample_record_2, sample_record_3, sample_record_4, sample_record_5]"
    by (simp add: transform_sales_data_def sample_rows_def row_body_sample_1
          row_body_sample_2 row_body_sample_3 row_body_sample_4 row_body_sample_5
          row_body_sample_6)
  from C9_report_failure_fails_the_run
         [OF env, where data = "[unstamped sample_record_1]"
            and project_id = "''your-project-id''" and dataset_id = "''sales_data''"
            and table_id = "''sales''" and w = sales_world and cenv = sample_csv_env
            and raw_data = sample_rows and v = sales_world
            and csv_path = "''sales_data.csv''"
            and transformed = "[sample_record_1, sample_record_2, sample_record_3,
                                 sample_record_4, sample_record_5]"]
       src tr env
  show ?thesis
    by (simp add: case_prod_unfold stamp_all_def unstamped_def sales_world_def
          report_fails_env_def)
qed




end
